theory Spec2Isabelle
  imports Complex_Main "HOL-Library.Log_Nat" "HOL-Library.Code_Target_Nat"
begin

section \<open>The URL shortener front end (frontend/src/App.js)\<close>

text \<open>
  The component \<^verbatim>\<open>App\<close> holds the form fields, the last result and a history of past
  conversions. This theory embeds its logic: the two validators
  (\<^verbatim>\<open>isValidHttpUrl\<close>, \<^verbatim>\<open>parseValidityOrDefault\<close>), the submit handler
  (\<^verbatim>\<open>handleSubmit\<close>), the history initialiser that reads \<^verbatim>\<open>localStorage\<close>, the effect
  that writes it back, and \<^verbatim>\<open>handleClearHistory\<close>.

  Conventions of the embedding.
  \<^item> A JavaScript string is a \<open>string\<close>: a list of code units below 256. The white space
    that \<^verbatim>\<open>trim\<close> removes is therefore the part of the ECMAScript set that lies in this
    range.
  \<^item> A JavaScript number is a \<open>jsnumber\<close>: \<open>NaN\<close>, the two infinities, or a finite
    binary64 value, given by the rational it stands for. Whatever produces a number (the
    conversion of a string, \<^verbatim>\<open>*\<close>, \<^verbatim>\<open>+\<close>, \<^verbatim>\<open>JSON.parse\<close>) rounds the exact result with
    \<open>binary64\<close>: to the nearest value, ties to the even significand, and to an
    infinity from \<open>2 ^ 1024\<close> on. The sign of zero is not part of the model.
  \<^item> Exceptions are values: a constructor that throws returns \<open>None\<close>, a promise is a
    \<open>settled\<close> value that is either rejected with the message of its error or resolved.
  \<^item> What the platform supplies (the URL parser, \<^verbatim>\<open>fetch\<close>, the clock, the storage area)
    is an argument of the function that uses it.
\<close>

subsection \<open>Numbers\<close>

datatype jsnumber = NaN | PosInf | NegInf | Fin rat

text \<open>
  Rounding to binary64. For \<open>a > 0\<close>, \<open>floor_log2 a\<close> is the exponent \<open>l\<close> with
  \<open>2 ^ l \<le> a < 2 ^ (l + 1)\<close>, found from the bit lengths of numerator and denominator.
  A binary64 value has 53 significant bits and no bit below \<open>2 ^ - 1074\<close>: so \<open>a\<close> is
  rounded to a multiple of \<open>2 ^ e\<close>, where \<open>e\<close> is \<open>l - 52\<close> or \<open>- 1074\<close> if that is
  greater, to the nearest one and to the even one of two that are equally near. A result
  of \<open>2 ^ 1024\<close> or more is an infinity.
\<close>

definition floor_log2 :: "rat \<Rightarrow> int" where
  "floor_log2 a =
     (let l = bitlen (fst (quotient_of a)) - bitlen (snd (quotient_of a))
      in if 2 powi l \<le> a then l else l - 1)"

definition round_half_even :: "rat \<Rightarrow> int" where
  "round_half_even x =
     (let f = \<lfloor>x\<rfloor>; t = x - rat_of_int f
      in if t < 1 / 2 then f
         else if 1 / 2 < t then f + 1
         else if even f then f else f + 1)"

definition binary64 :: "rat \<Rightarrow> jsnumber" where
  "binary64 r =
     (if r = 0 then Fin 0
      else
        (let a = \<bar>r\<bar>;
             e = max (floor_log2 a - 52) (- 1074);
             q = rat_of_int (round_half_even (a / 2 powi e)) * 2 powi e
         in if 2 ^ 1024 \<le> q then (if r < 0 then NegInf else PosInf)
            else Fin (if r < 0 then - q else q)))"

text \<open>\<^verbatim>\<open>Number.isInteger\<close>: a finite number with no fractional part.\<close>

definition is_whole :: "rat \<Rightarrow> bool" where
  "is_whole r = (rat_of_int \<lfloor>r\<rfloor> = r)"

fun Number_isInteger :: "jsnumber \<Rightarrow> bool" where
  "Number_isInteger (Fin r) = is_whole r"
| "Number_isInteger _ = False"

text \<open>The relational operator \<^verbatim>\<open><=\<close> on two numbers; false as soon as one is \<open>NaN\<close>.\<close>

fun num_le :: "jsnumber \<Rightarrow> jsnumber \<Rightarrow> bool" where
  "num_le NaN _ = False"
| "num_le _ NaN = False"
| "num_le NegInf _ = True"
| "num_le _ PosInf = True"
| "num_le (Fin a) (Fin b) = (a \<le> b)"
| "num_le _ _ = False"

text \<open>
  Unary minus, \<^verbatim>\<open>*\<close> and \<^verbatim>\<open>+\<close> on two numbers. The product and the sum of two finite
  numbers are the exact ones, rounded.
\<close>

fun num_neg :: "jsnumber \<Rightarrow> jsnumber" where
  "num_neg NaN = NaN"
| "num_neg PosInf = NegInf"
| "num_neg NegInf = PosInf"
| "num_neg (Fin r) = Fin (- r)"

fun num_sgn :: "jsnumber \<Rightarrow> int" where
  "num_sgn NaN = 0"
| "num_sgn PosInf = 1"
| "num_sgn NegInf = - 1"
| "num_sgn (Fin r) = (if 0 < r then 1 else if r < 0 then - 1 else 0)"

fun num_mul :: "jsnumber \<Rightarrow> jsnumber \<Rightarrow> jsnumber" where
  "num_mul NaN _ = NaN"
| "num_mul _ NaN = NaN"
| "num_mul (Fin a) (Fin b) = binary64 (a * b)"
| "num_mul a b =
     (let s = num_sgn a * num_sgn b
      in if s = 0 then NaN else if 0 < s then PosInf else NegInf)"

fun num_add :: "jsnumber \<Rightarrow> jsnumber \<Rightarrow> jsnumber" where
  "num_add NaN _ = NaN"
| "num_add _ NaN = NaN"
| "num_add (Fin a) (Fin b) = binary64 (a + b)"
| "num_add PosInf NegInf = NaN"
| "num_add NegInf PosInf = NaN"
| "num_add (Fin a) b = b"
| "num_add a _ = a"

subsection \<open>Strings: \<^verbatim>\<open>trim\<close> and the conversion \<^verbatim>\<open>Number(string)\<close>\<close>

text \<open>
  White space and line terminators below 256: TAB, LF, VT, FF, CR, SP and NBSP.
\<close>

definition is_whitespace :: "char \<Rightarrow> bool" where
  "is_whitespace c = (of_char c \<in> {9, 10, 11, 12, 13, 32, 160 :: nat})"

definition trim :: "string \<Rightarrow> string" where
  "trim s = rev (dropWhile is_whitespace (rev (dropWhile is_whitespace s)))"

definition is_digit :: "char \<Rightarrow> bool" where
  "is_digit c = (48 \<le> (of_char c :: nat) \<and> (of_char c :: nat) \<le> 57)"

definition is_hex_letter :: "char \<Rightarrow> bool" where
  "is_hex_letter c =
     ((97 \<le> (of_char c :: nat) \<and> (of_char c :: nat) \<le> 102) \<or>
      (65 \<le> (of_char c :: nat) \<and> (of_char c :: nat) \<le> 70))"

definition digit_value :: "char \<Rightarrow> nat" where
  "digit_value c =
     (if is_digit c then of_char c - 48
      else if 97 \<le> (of_char c :: nat) then of_char c - 87
      else of_char c - 55)"

definition is_radix_digit :: "nat \<Rightarrow> char \<Rightarrow> bool" where
  "is_radix_digit base c = ((is_digit c \<or> is_hex_letter c) \<and> digit_value c < base)"

definition digits_value :: "nat \<Rightarrow> string \<Rightarrow> nat" where
  "digits_value base ds = foldl (\<lambda>a c. a * base + digit_value c) 0 ds"

text \<open>
  The grammar \<open>StringNumericLiteral\<close> of ECMAScript (7.1.4.1), which \<^verbatim>\<open>Number\<close> applies
  to a string: after trimming, the empty string is \<open>0\<close>; a binary, octal or hexadecimal
  integer literal has no sign; a decimal literal has an optional sign, then
  \<^verbatim>\<open>Infinity\<close> or digits with an optional fraction and exponent. Anything else is \<open>NaN\<close>.
  The number is the exact value of the literal, rounded. Each function below takes the
  whole remaining string.
\<close>

definition DecimalDigits :: "string \<Rightarrow> nat option" where
  "DecimalDigits d =
     (if d \<noteq> [] \<and> list_all is_digit d then Some (digits_value 10 d) else None)"

definition ExponentPart :: "string \<Rightarrow> int option" where
  "ExponentPart s =
     (if s = [] then Some 0
      else if hd s = CHR ''e'' \<or> hd s = CHR ''E'' then
        (let r = tl s in
         if r \<noteq> [] \<and> hd r = CHR ''+'' then map_option int (DecimalDigits (tl r))
         else if r \<noteq> [] \<and> hd r = CHR ''-'' then
           map_option (\<lambda>n. - int n) (DecimalDigits (tl r))
         else map_option int (DecimalDigits r))
      else None)"

definition scale10 :: "rat \<Rightarrow> int \<Rightarrow> rat" where
  "scale10 m e = (if 0 \<le> e then m * 10 ^ nat e else m / 10 ^ nat (- e))"

definition StrUnsignedDecimalLiteral :: "string \<Rightarrow> jsnumber" where
  "StrUnsignedDecimalLiteral s =
     (if s = ''Infinity'' then PosInf
      else
        (let ip = takeWhile is_digit s;
             r1 = dropWhile is_digit s;
             dot = (r1 \<noteq> [] \<and> hd r1 = CHR ''.'');
             fp = (if dot then takeWhile is_digit (tl r1) else []);
             r2 = (if dot then dropWhile is_digit (tl r1) else r1)
         in if ip = [] \<and> fp = [] then NaN
            else (case ExponentPart r2 of
                    None \<Rightarrow> NaN
                  | Some e \<Rightarrow>
                      binary64
                        (scale10 (of_nat (digits_value 10 (ip @ fp))) (e - int (length fp))))))"

definition StrDecimalLiteral :: "string \<Rightarrow> jsnumber" where
  "StrDecimalLiteral s =
     (if s \<noteq> [] \<and> hd s = CHR ''+'' then StrUnsignedDecimalLiteral (tl s)
      else if s \<noteq> [] \<and> hd s = CHR ''-'' then num_neg (StrUnsignedDecimalLiteral (tl s))
      else StrUnsignedDecimalLiteral s)"

definition radix_of_prefix :: "char \<Rightarrow> nat" where
  "radix_of_prefix p =
     (if p = CHR ''x'' \<or> p = CHR ''X'' then 16
      else if p = CHR ''o'' \<or> p = CHR ''O'' then 8
      else if p = CHR ''b'' \<or> p = CHR ''B'' then 2
      else 0)"

definition NonDecimalIntegerLiteral :: "string \<Rightarrow> jsnumber option" where
  "NonDecimalIntegerLiteral s =
     (if 2 < length s \<and> hd s = CHR ''0'' then
        (let base = radix_of_prefix (s ! 1); ds = drop 2 s
         in if base \<noteq> 0 \<and> list_all (is_radix_digit base) ds
            then Some (binary64 (of_nat (digits_value base ds))) else None)
      else None)"

definition StringToNumber :: "string \<Rightarrow> jsnumber" where
  "StringToNumber s =
     (let t = trim s
      in if t = [] then Fin 0
         else (case NonDecimalIntegerLiteral t of
                 Some n \<Rightarrow> n
               | None \<Rightarrow> StrDecimalLiteral t))"

subsection \<open>The validity field: \<^verbatim>\<open>parseValidityOrDefault\<close>\<close>

text \<open>
  \<^verbatim>\<open>
  const parseValidityOrDefault = (value) => {
    if (!value || String(value).trim() === '') {
      return 30; // default 30 minutes
    }
    const parsed = Number(String(value).trim());
    if (!Number.isInteger(parsed) || parsed <= 0) {
      return null;
    }
    return parsed;
  };
  \<close>
  The argument is the text of the input field, a string, so \<^verbatim>\<open>!value\<close> holds exactly for
  the empty string and \<^verbatim>\<open>String(value)\<close> is the string itself. \<open>None\<close> is \<^verbatim>\<open>null\<close>.
\<close>

definition parseValidityOrDefault :: "string \<Rightarrow> jsnumber option" where
  "parseValidityOrDefault v =
     (if v = [] \<or> trim v = [] then Some (Fin 30)
      else
        (let parsed = StringToNumber (trim v)
         in if \<not> Number_isInteger parsed \<or> num_le parsed (Fin 0) then None
            else Some parsed))"

text \<open>
  The reading of the validity field in the words of the specification of
  \<^verbatim>\<open>resolveValidity\<close>: blank input is the default 30; anything else is read as an
  integer written in base 10 (an optional sign and decimal digits) and is valid when it
  is greater than 0.
\<close>

definition base10_integer :: "string \<Rightarrow> int option" where
  "base10_integer s =
     (if s \<noteq> [] \<and> hd s = CHR ''-'' then map_option (\<lambda>n. - int n) (DecimalDigits (tl s))
      else if s \<noteq> [] \<and> hd s = CHR ''+'' then map_option int (DecimalDigits (tl s))
      else map_option int (DecimalDigits s))"

definition resolveValidity_spec :: "string \<Rightarrow> int option" where
  "resolveValidity_spec raw =
     (if trim raw = [] then Some 30
      else (case base10_integer (trim raw) of
              None \<Rightarrow> None
            | Some n \<Rightarrow> if 0 < n then Some n else None))"

subsection \<open>The URL field: \<^verbatim>\<open>isValidHttpUrl\<close>\<close>

text \<open>
  \<^verbatim>\<open>
  const isValidHttpUrl = (value) => {
    try {
      const u = new URL(value);
      return u.protocol === 'http:' || u.protocol === 'https:';
    } catch {
      return false;
    }
  };
  \<close>
  The constructor \<^verbatim>\<open>URL\<close> belongs to the platform and is the first argument: it returns
  \<open>None\<close> where the constructor throws (the string is not an absolute URL), and
  otherwise the object, of which the code reads \<^verbatim>\<open>protocol\<close>: the scheme followed by a
  colon.
\<close>

record URL =
  protocol :: string

definition isValidHttpUrl :: "(string \<Rightarrow> URL option) \<Rightarrow> string \<Rightarrow> bool" where
  "isValidHttpUrl new_URL v =
     (case new_URL v of
        None \<Rightarrow> False
      | Some u \<Rightarrow> protocol u = ''http:'' \<or> protocol u = ''https:'')"

text \<open>
  A stand-in for the constructor that knows two addresses, for evaluating the handler on
  concrete inputs.
\<close>

definition sample_URL :: "string \<Rightarrow> URL option" where
  "sample_URL v =
     (if v = ''https://example.com'' then Some \<lparr>protocol = ''https:''\<rparr>
      else if v = ''ftp://x'' then Some \<lparr>protocol = ''ftp:''\<rparr>
      else None)"

subsection \<open>Values\<close>

text \<open>
  The values the handler works with: what \<^verbatim>\<open>response.json()\<close> and \<^verbatim>\<open>JSON.parse\<close> return
  (\<^verbatim>\<open>null\<close>, booleans, numbers, strings, arrays, and plain objects as the list of their
  own properties, each key once), \<^verbatim>\<open>undefined\<close> for a property that is missing, and the
  numbers the handler computes itself.
\<close>

datatype jsval = Undefined | Null | Bool bool | Num jsnumber | Str string
  | Arr "jsval list" | Obj "(string \<times> jsval) list"

text \<open>\<open>ToBoolean\<close>, which \<^verbatim>\<open>||\<close>, \<^verbatim>\<open>!\<close> and \<^verbatim>\<open>? :\<close> apply to their first operand.\<close>

fun truthy :: "jsval \<Rightarrow> bool" where
  "truthy Undefined = False"
| "truthy Null = False"
| "truthy (Bool b) = b"
| "truthy (Num NaN) = False"
| "truthy (Num (Fin r)) = (r \<noteq> 0)"
| "truthy (Num _) = True"
| "truthy (Str s) = (s \<noteq> [])"
| "truthy (Arr _) = True"
| "truthy (Obj _) = True"

definition js_or :: "jsval \<Rightarrow> jsval \<Rightarrow> jsval" where
  "js_or a b = (if truthy a then a else b)"

text \<open>
  The property read \<^verbatim>\<open>data.k\<close> on a value other than \<^verbatim>\<open>null\<close> and \<^verbatim>\<open>undefined\<close>, for a
  name \<open>k\<close> that no prototype defines (the five names the handler reads are such): an own
  property of an object, \<^verbatim>\<open>undefined\<close> otherwise.
\<close>

fun get_prop :: "jsval \<Rightarrow> string \<Rightarrow> jsval" where
  "get_prop (Obj kvs) k = (case map_of kvs k of None \<Rightarrow> Undefined | Some v \<Rightarrow> v)"
| "get_prop _ k = Undefined"

text \<open>
  \<^verbatim>\<open>Number(v)\<close>. For an object or an array the conversion goes through \<^verbatim>\<open>toString\<close>. An
  object parsed from JSON inherits \<^verbatim>\<open>toString\<close> and prints as \<^verbatim>\<open>[object Object]\<close>, unless
  it has an own property of that name, which is not callable: then the conversion throws
  a TypeError. An array prints its elements joined by commas, \<^verbatim>\<open>null\<close> and \<^verbatim>\<open>undefined\<close>
  as the empty string; so an array of two or more elements is never numeric, and an array
  of one element converts as the string of that element does.
\<close>

fun ToString_throws :: "jsval \<Rightarrow> bool" where
  "ToString_throws (Obj kvs) = (''toString'' \<in> set (map fst kvs))"
| "ToString_throws (Arr xs) = list_ex ToString_throws xs"
| "ToString_throws _ = False"

fun ToNumber :: "jsval \<Rightarrow> jsnumber" where
  "ToNumber Undefined = NaN"
| "ToNumber Null = Fin 0"
| "ToNumber (Bool b) = Fin (if b then 1 else 0)"
| "ToNumber (Num n) = n"
| "ToNumber (Str s) = StringToNumber s"
| "ToNumber (Obj kvs) = NaN"
| "ToNumber (Arr []) = Fin 0"
| "ToNumber (Arr [x]) =
     (case x of Undefined \<Rightarrow> Fin 0 | Bool b \<Rightarrow> NaN | _ \<Rightarrow> ToNumber x)"
| "ToNumber (Arr (x # y # zs)) = NaN"

definition Number_of :: "jsval \<Rightarrow> jsnumber option" where
  "Number_of v = (if ToString_throws v then None else Some (ToNumber v))"

subsection \<open>The history and its persisted copy\<close>

text \<open>
  The updater passed to \<^verbatim>\<open>setHistory\<close> on a successful submission, and
  \<^verbatim>\<open>handleClearHistory\<close>:
  \<^verbatim>\<open>
  setHistory((prev) => [ { ... }, ...prev ].slice(0, 20));
  const handleClearHistory = () => { setHistory([]); };
  \<close>
\<close>

definition history_updater :: "'a \<Rightarrow> 'a list \<Rightarrow> 'a list" where
  "history_updater entry prev = take 20 (entry # prev)"

definition handleClearHistory :: "'a list" where
  "handleClearHistory = []"

datatype 'a history_op = Record 'a | Clear

fun apply_op :: "'a list \<Rightarrow> 'a history_op \<Rightarrow> 'a list" where
  "apply_op h (Record e) = history_updater e h"
| "apply_op h Clear = handleClearHistory"

text \<open>
  JSON text is modelled by what it denotes. A stored string is the empty string, a text
  that \<^verbatim>\<open>JSON.parse\<close> rejects, or a well-formed text, given by its syntax tree, in which
  a number is the decimal that is written. \<^verbatim>\<open>JSON.parse\<close> rounds it to binary64;
  \<^verbatim>\<open>JSON.stringify\<close> writes a finite number as a decimal that reads back as that number,
  which the model takes to be the number itself.
  \<^verbatim>\<open>JSON.stringify\<close> writes \<^verbatim>\<open>null\<close> for a number that is not finite and for \<^verbatim>\<open>undefined\<close>
  in an array, and leaves out a property whose value is \<^verbatim>\<open>undefined\<close>; of \<^verbatim>\<open>undefined\<close>
  itself it returns \<^verbatim>\<open>undefined\<close>, which the storage area would store as the nine
  letters of that word.
\<close>

datatype json = JNull | JBool bool | JNum rat | JStr string
  | JArr "json list" | JObj "(string \<times> json) list"

datatype stored_text = EmptyText | MalformedText | JsonText json


fun of_json :: "json \<Rightarrow> jsval" where
  "of_json JNull = Null"
| "of_json (JBool b) = Bool b"
| "of_json (JNum r) = Num (binary64 r)"
| "of_json (JStr s) = Str s"
| "of_json (JArr xs) = Arr (map of_json xs)"
| "of_json (JObj kvs) = Obj (map (\<lambda>(k, v). (k, of_json v)) kvs)"


fun JSON_parse :: "stored_text \<Rightarrow> jsval option" where
  "JSON_parse (JsonText j) = Some (of_json j)"
| "JSON_parse _ = None"

text \<open>
  The storage area, as far as the key \<^verbatim>\<open>url_history\<close> goes: the item stored under the key
  (\<open>None\<close> when there is none, for which \<^verbatim>\<open>getItem\<close> returns \<^verbatim>\<open>null\<close>), and whether reading
  and writing throw. The outer \<open>option\<close> of the two calls is the exception.
\<close>

record storage =
  item :: "stored_text option"
  read_fault :: bool
  write_fault :: bool

definition getItem :: "storage \<Rightarrow> stored_text option option" where
  "getItem st = (if read_fault st then None else Some (item st))"


text \<open>
  The initialiser of the history state, and the effect that runs whenever the history
  changes:
  \<^verbatim>\<open>
  const [history, setHistory] = useState(() => {
    try {
      const stored = localStorage.getItem('url_history');
      return stored ? JSON.parse(stored) : [];
    } catch (err) {
      return [];
    }
  });
  useEffect(() => {
    try {
      localStorage.setItem('url_history', JSON.stringify(history));
    } catch (err) {
      // ignore storage errors
    }
  }, [history]);
  \<close>
\<close>

definition load_history :: "storage \<Rightarrow> jsval" where
  "load_history st =
     (case getItem st of
        None \<Rightarrow> Arr []
      | Some None \<Rightarrow> Arr []
      | Some (Some EmptyText) \<Rightarrow> Arr []
      | Some (Some t) \<Rightarrow> (case JSON_parse t of None \<Rightarrow> Arr [] | Some v \<Rightarrow> v))"




subsection \<open>The submit handler: \<^verbatim>\<open>handleSubmit\<close>\<close>

text \<open>
  A promise that has settled: rejected, with the \<^verbatim>\<open>message\<close> of the error it was rejected
  with (the empty string when there is none), or resolved with a value.
\<close>

datatype 'a settled = Rejected string | Resolved 'a

record response =
  ok :: bool
  text_body :: "string settled"
  json_body :: "jsval settled"

text \<open>
  The request that \<^verbatim>\<open>fetch\<close> receives. The body is the payload object; its JSON text is
  not modelled.
\<close>

record request =
  endpoint :: string
  http_method :: string
  content_type :: string
  body :: jsval

text \<open>
  What the platform supplies to one submission: the URL constructor, the value of
  \<^verbatim>\<open>process.env.REACT_APP_API_BASE_URL\<close>, \<^verbatim>\<open>fetch\<close>, the two readings of \<^verbatim>\<open>Date.now()\<close>
  (one where the expiry is computed, one where the history entry is built; whole
  numbers of milliseconds, which the code has as numbers), and the
  messages of the two TypeErrors the engine can raise inside the \<^verbatim>\<open>try\<close> block: reading a
  property of \<^verbatim>\<open>null\<close>, and converting an object to a number.
\<close>

record platform =
  new_URL :: "string \<Rightarrow> URL option"
  REACT_APP_API_BASE_URL :: "string option"
  fetch :: "request \<Rightarrow> response settled"
  now_expiry :: int
  now_created :: int
  null_read_message :: string
  not_primitive_message :: string

record state =
  longUrl :: string
  aliasField :: string
  validityMinutes :: string
  isLoading :: bool
  errorMessage :: string
  shortUrl :: jsval
  expiresAt :: jsval
  history :: "jsval list"

definition apiBaseUrl :: "platform \<Rightarrow> string" where
  "apiBaseUrl p = (case REACT_APP_API_BASE_URL p of None \<Rightarrow> [] | Some b \<Rightarrow> b)"

text \<open>
  \<^verbatim>\<open>
  const payload = { url: longUrl.trim(), validity: minutes };
  if (alias.trim()) payload.alias = alias.trim();
  const response = await fetch(`${apiBaseUrl}/shorten`, {
    method: 'POST',
    headers: { 'Content-Type': 'application/json' },
    body: JSON.stringify(payload),
  });
  \<close>
\<close>

definition build_request :: "platform \<Rightarrow> state \<Rightarrow> jsnumber \<Rightarrow> request" where
  "build_request p s minutes =
     \<lparr>endpoint = apiBaseUrl p @ ''/shorten'',
      http_method = ''POST'',
      content_type = ''application/json'',
      body = Obj ([(''url'', Str (trim (longUrl s))), (''validity'', Num minutes)] @
                  (if trim (aliasField s) \<noteq> [] then [(''alias'', Str (trim (aliasField s)))] else []))\<rparr>"

text \<open>
  The body of the \<^verbatim>\<open>try\<close> block up to the state updates. \<open>Inl m\<close>: an error with message
  \<open>m\<close> was thrown. \<open>Inr (u, e)\<close>: the block went through with \<^verbatim>\<open>generatedShortUrl\<close> \<open>u\<close>
  and \<^verbatim>\<open>computedExpiry\<close> \<open>e\<close>.
  \<^verbatim>\<open>
  if (!response.ok) {
    const text = await response.text();
    throw new Error(text || 'Failed to shorten URL');
  }
  const data = await response.json();
  const generatedShortUrl = data.shortUrl || data.short_url || data.short || '';
  const serverExpiresAt = data.expiresAt || data.expires_at || null;
  if (!generatedShortUrl) {
    throw new Error('Unexpected response from server.');
  }
  const computedExpiry = serverExpiresAt ? Number(serverExpiresAt)
                                         : Date.now() + minutes * 60 * 1000;
  \<close>
\<close>

definition generatedShortUrl :: "jsval \<Rightarrow> jsval" where
  "generatedShortUrl data =
     js_or (js_or (js_or (get_prop data ''shortUrl'') (get_prop data ''short_url''))
                  (get_prop data ''short'')) (Str [])"

definition serverExpiresAt :: "jsval \<Rightarrow> jsval" where
  "serverExpiresAt data =
     js_or (js_or (get_prop data ''expiresAt'') (get_prop data ''expires_at'')) Null"

definition computedExpiry :: "platform \<Rightarrow> jsnumber \<Rightarrow> jsval \<Rightarrow> jsnumber option" where
  "computedExpiry p minutes data =
     (if truthy (serverExpiresAt data) then Number_of (serverExpiresAt data)
      else Some (num_add (binary64 (of_int (now_expiry p)))
                         (num_mul (num_mul minutes (Fin 60)) (Fin 1000))))"

definition try_block :: "platform \<Rightarrow> request \<Rightarrow> jsnumber \<Rightarrow> string + jsval \<times> jsnumber" where
  "try_block p req minutes =
     (case fetch p req of
        Rejected m \<Rightarrow> Inl m
      | Resolved r \<Rightarrow>
          if \<not> ok r then
            (case text_body r of
               Rejected m \<Rightarrow> Inl m
             | Resolved t \<Rightarrow> Inl (if t \<noteq> [] then t else ''Failed to shorten URL''))
          else
            (case json_body r of
               Rejected m \<Rightarrow> Inl m
             | Resolved data \<Rightarrow>
                 if data = Null \<or> data = Undefined then Inl (null_read_message p)
                 else if \<not> truthy (generatedShortUrl data) then
                   Inl ''Unexpected response from server.''
                 else
                   (case computedExpiry p minutes data of
                      None \<Rightarrow> Inl (not_primitive_message p)
                    | Some e \<Rightarrow> Inr (generatedShortUrl data, e))))"

text \<open>
  The entry that the updater puts in front of the history:
  \<^verbatim>\<open>
  { longUrl: longUrl.trim(), shortUrl: generatedShortUrl, createdAt: Date.now(),
    expiresAt: computedExpiry, validityMinutes: minutes }
  \<close>
\<close>

definition history_entry :: "platform \<Rightarrow> state \<Rightarrow> jsnumber \<Rightarrow> jsval \<Rightarrow> jsnumber \<Rightarrow> jsval" where
  "history_entry p s minutes u e =
     Obj [(''longUrl'', Str (trim (longUrl s))), (''shortUrl'', u),
          (''createdAt'', Num (binary64 (of_int (now_created p)))), (''expiresAt'', Num e),
          (''validityMinutes'', Num minutes)]"

text \<open>
  The field \<open>aliasField\<close> is the state variable \<^verbatim>\<open>alias\<close>. The handler takes the
  state it was rendered with to the state after all its updates,
  together with the requests it issued. The three guards return before the \<^verbatim>\<open>try\<close> block;
  the \<^verbatim>\<open>catch\<close> clause sets \<^verbatim>\<open>err.message || 'Something went wrong'\<close>; the \<^verbatim>\<open>finally\<close>
  clause resets \<^verbatim>\<open>isLoading\<close>.
\<close>

definition handleSubmit :: "platform \<Rightarrow> state \<Rightarrow> state \<times> request list" where
  "handleSubmit p s =
     (let s0 = s\<lparr>errorMessage := [], shortUrl := Str [], expiresAt := Null\<rparr>
      in if trim (longUrl s) = [] then
           (s0\<lparr>errorMessage := ''Please enter a URL to shorten.''\<rparr>, [])
         else if \<not> isValidHttpUrl (new_URL p) (trim (longUrl s)) then
           (s0\<lparr>errorMessage := ''Please enter a valid http(s) URL.''\<rparr>, [])
         else
           (case parseValidityOrDefault (validityMinutes s) of
              None \<Rightarrow>
                (s0\<lparr>errorMessage := ''Validity must be a positive integer (minutes).''\<rparr>, [])
            | Some minutes \<Rightarrow>
                (let req = build_request p s minutes
                 in (case try_block p req minutes of
                       Inl m \<Rightarrow>
                         (s0\<lparr>isLoading := False,
                             errorMessage := (if m \<noteq> [] then m else ''Something went wrong'')\<rparr>,
                          [req])
                     | Inr (u, e) \<Rightarrow>
                         (s0\<lparr>isLoading := False, shortUrl := u, expiresAt := Num e,
                             history := history_updater (history_entry p s minutes u e) (history s),
                             aliasField := []\<rparr>,
                          [req])))))"

text \<open>
  A submission succeeds when it passes the three guards and the \<^verbatim>\<open>try\<close> block runs to its
  end; every other submission ends in a failure.
\<close>

definition submit_succeeds :: "platform \<Rightarrow> state \<Rightarrow> bool" where
  "submit_succeeds p s =
     (trim (longUrl s) \<noteq> [] \<and> isValidHttpUrl (new_URL p) (trim (longUrl s)) \<and>
      (case parseValidityOrDefault (validityMinutes s) of
         None \<Rightarrow> False
       | Some minutes \<Rightarrow>
           (case try_block p (build_request p s minutes) minutes of
              Inl m \<Rightarrow> False
            | Inr r \<Rightarrow> True)))"

subsection \<open>Readings of the specification, and sample inputs\<close>

text \<open>
  The specification's reading of the two response fields, to compare the handler with:
  a key holds a non-empty string; the expiry is the value of \<^verbatim>\<open>expiresAt\<close> when that key
  is present and else the value of \<^verbatim>\<open>expires_at\<close>.
\<close>

definition holds_nonempty_string :: "jsval \<Rightarrow> string \<Rightarrow> bool" where
  "holds_nonempty_string data k = (case get_prop data k of Str t \<Rightarrow> t \<noteq> [] | _ \<Rightarrow> False)"

definition expiry_field_spec :: "jsval \<Rightarrow> jsval option" where
  "expiry_field_spec data =
     (case data of
        Obj kvs \<Rightarrow>
          (case map_of kvs ''expiresAt'' of
             Some v \<Rightarrow> Some v
           | None \<Rightarrow> map_of kvs ''expires_at'')
      | _ \<Rightarrow> None)"

text \<open>
  Sample inputs: a platform whose \<^verbatim>\<open>fetch\<close> settles in a given way, a form holding a valid
  address and no validity, the two kinds of response, and an empty storage area that
  works.
\<close>

definition sample_platform :: "response settled \<Rightarrow> platform" where
  "sample_platform r =
     \<lparr>new_URL = sample_URL, REACT_APP_API_BASE_URL = None, fetch = (\<lambda>req. r),
      now_expiry = 1000, now_created = 1001,
      null_read_message = ''Cannot read properties of null'',
      not_primitive_message = ''Cannot convert object to primitive value''\<rparr>"

definition sample_state :: state where
  "sample_state =
     \<lparr>longUrl = ''https://example.com'', aliasField = [], validityMinutes = [],
      isLoading = False, errorMessage = [], shortUrl = Str [], expiresAt = Null,
      history = []\<rparr>"

definition ok_response :: "jsval \<Rightarrow> response" where
  "ok_response data = \<lparr>ok = True, text_body = Resolved [], json_body = Resolved data\<rparr>"

definition error_response :: "string \<Rightarrow> response" where
  "error_response t = \<lparr>ok = False, text_body = Resolved t, json_body = Rejected []\<rparr>"

definition sample_storage :: storage where
  "sample_storage = \<lparr>item = None, read_fault = False, write_fault = False\<rparr>"

section \<open>Properties\<close>

subsection \<open>Rounding to binary64\<close>

lemma floor_log2_bounds:
  assumes "0 < a"
  shows "2 powi floor_log2 a \<le> a \<and> a < 2 powi (floor_log2 a + 1)"
proof -
  obtain n d where q: "quotient_of a = (n, d)" by (cases "quotient_of a")
  have d: "0 < d" using q by (rule quotient_of_denom_pos)
  have a: "a = rat_of_int n / rat_of_int d" using q by (rule quotient_of_div)
  have n: "0 < n" using assms d unfolding a by (simp add: zero_less_divide_iff)
  let ?bn = "bitlen n" and ?bd = "bitlen d"
  have bn: "2 ^ nat (?bn - 1) \<le> n" "n < 2 ^ nat ?bn" using bitlen_bounds [OF n] by auto
  have bd: "2 ^ nat (?bd - 1) \<le> d" "d < 2 ^ nat ?bd" using bitlen_bounds [OF d] by auto
  have pn: "1 \<le> ?bn" "1 \<le> ?bd"
    using n d bitlen_eq_zero_iff [of n] bitlen_eq_zero_iff [of d] bitlen_nonneg [of n]
      bitlen_nonneg [of d] by linarith+
  have rn: "(2::rat) powi (?bn - 1) \<le> rat_of_int n" "rat_of_int n < 2 powi ?bn"
  proof -
    have "rat_of_int (2 ^ nat (?bn - 1)) \<le> rat_of_int n" using bn(1) by (simp only: of_int_le_iff)
    then show "(2::rat) powi (?bn - 1) \<le> rat_of_int n" using pn by (simp add: power_int_def)
    have "rat_of_int n < rat_of_int (2 ^ nat ?bn)" using bn(2) by (simp only: of_int_less_iff)
    then show "rat_of_int n < 2 powi ?bn" using pn by (simp add: power_int_def)
  qed
  have rd: "(2::rat) powi (?bd - 1) \<le> rat_of_int d" "rat_of_int d < 2 powi ?bd"
  proof -
    have "rat_of_int (2 ^ nat (?bd - 1)) \<le> rat_of_int d" using bd(1) by (simp only: of_int_le_iff)
    then show "(2::rat) powi (?bd - 1) \<le> rat_of_int d" using pn by (simp add: power_int_def)
    have "rat_of_int d < rat_of_int (2 ^ nat ?bd)" using bd(2) by (simp only: of_int_less_iff)
    then show "rat_of_int d < 2 powi ?bd" using pn by (simp add: power_int_def)
  qed
  have dpos: "0 < rat_of_int d" using d by simp
  have up: "a < 2 powi (?bn - ?bd + 1)"
  proof -
    have "rat_of_int n < 2 powi ?bn" by (rule rn(2))
    also have "\<dots> = 2 powi (?bn - ?bd + 1) * 2 powi (?bd - 1)"
      by (simp add: power_int_add [symmetric])
    also have "\<dots> \<le> 2 powi (?bn - ?bd + 1) * rat_of_int d"
      using rd(1) by (intro mult_left_mono) simp_all
    finally show ?thesis unfolding a using dpos by (simp add: divide_less_eq)
  qed
  have lo: "2 powi (?bn - ?bd - 1) \<le> a"
  proof -
    have "2 powi (?bn - ?bd - 1) * rat_of_int d \<le> 2 powi (?bn - ?bd - 1) * 2 powi ?bd"
      using rd(2) by (intro mult_left_mono) simp_all
    also have "\<dots> = 2 powi (?bn - 1)" by (simp add: power_int_add [symmetric])
    also have "\<dots> \<le> rat_of_int n" by (rule rn(1))
    finally show ?thesis unfolding a using dpos by (simp add: le_divide_eq)
  qed
  show ?thesis
  proof (cases "2 powi (?bn - ?bd) \<le> a")
    case True
    then have "floor_log2 a = ?bn - ?bd" by (simp add: floor_log2_def q)
    then show ?thesis using True up by simp
  next
    case False
    then have "floor_log2 a = ?bn - ?bd - 1" by (simp add: floor_log2_def q)
    then show ?thesis using False lo by simp
  qed
qed

lemma pow2_less_D: "(2::rat) powi m < 2 powi n \<Longrightarrow> m < n"
proof (rule ccontr)
  assume a: "(2::rat) powi m < 2 powi n" and "\<not> m < n"
  then have "n \<le> m" by simp
  then have "(2::rat) powi n \<le> 2 powi m" by (intro power_int_increasing) simp_all
  with a show False by simp
qed

lemma pow2_le_D: "(2::rat) powi m \<le> 2 powi n \<Longrightarrow> m \<le> n"
proof (rule ccontr)
  assume a: "(2::rat) powi m \<le> 2 powi n" and "\<not> m \<le> n"
  then have "n < m" by simp
  then have "(2::rat) powi n < 2 powi m" by (intro power_int_strict_increasing) simp_all
  with a show False by simp
qed

lemma floor_log2_unique:
  assumes "2 powi l \<le> a" "a < 2 powi (l + 1)"
  shows "floor_log2 a = l"
proof -
  have pos: "0 < a" using assms(1) by (meson less_le_trans zero_less_numeral zero_less_power_int)
  note b = floor_log2_bounds [OF pos]
  have "(2::rat) powi l < 2 powi (floor_log2 a + 1)" using assms(1) b by simp
  then have 1: "l < floor_log2 a + 1" by (rule pow2_less_D)
  have "(2::rat) powi floor_log2 a < 2 powi (l + 1)" using assms(2) b by simp
  then have 2: "floor_log2 a < l + 1" by (rule pow2_less_D)
  from 1 2 show ?thesis by simp
qed

lemma round_half_even_int: "round_half_even (rat_of_int m) = m"
  by (simp add: round_half_even_def)

text \<open>The value of \<open>binary64\<close> from the binade of its argument.\<close>

lemma binary64_pos:
  assumes "2 powi l \<le> r" "r < 2 powi (l + 1)"
    and "e = max (l - 52) (- 1074)"
    and "q = rat_of_int (round_half_even (r / 2 powi e)) * 2 powi e"
  shows "binary64 r = (if 2 ^ 1024 \<le> q then PosInf else Fin q)"
proof -
  have pos: "0 < r" using assms(1) by (meson less_le_trans zero_less_numeral zero_less_power_int)
  have "floor_log2 r = l" using assms(1,2) by (rule floor_log2_unique)
  then show ?thesis using pos assms(3,4) by (simp add: binary64_def Let_def)
qed

lemma binary64_exact:
  assumes "r = rat_of_int m * 2 powi e" "0 < m" "m \<le> 2 ^ 53" "- 1074 \<le> e" "r < 2 ^ 1024"
  shows "binary64 r = Fin r"
proof -
  have pos: "0 < r" using assms(1,2) by simp
  note b = floor_log2_bounds [OF pos]
  let ?l = "floor_log2 r"
  let ?e = "max (?l - 52) (- 1074)"
  have "rat_of_int m \<le> rat_of_int (2 ^ 53)" using assms(3) by (simp only: of_int_le_iff)
  then have m53: "rat_of_int m \<le> 2 ^ 53" by simp
  have "2 powi ?l \<le> rat_of_int m * 2 powi e" using b assms(1) by simp
  also have "\<dots> \<le> 2 ^ 53 * 2 powi e"
    using m53 by (intro mult_right_mono) simp_all
  also have "\<dots> = 2 powi (53 + e)" by (simp add: power_int_add)
  finally have le: "?l \<le> 53 + e"
    by (rule pow2_le_D)
  show ?thesis
  proof (cases "?e \<le> e")
    case True
    have "r / 2 powi ?e = rat_of_int m * 2 powi (e - ?e)"
      unfolding assms(1) by (simp add: power_int_diff)
    also have "\<dots> = rat_of_int (m * 2 ^ nat (e - ?e))"
      using True by (simp add: power_int_def)
    finally have "round_half_even (r / 2 powi ?e) = m * 2 ^ nat (e - ?e)"
      by (simp only: round_half_even_int)
    then have "rat_of_int (round_half_even (r / 2 powi ?e)) * 2 powi ?e
        = rat_of_int m * 2 powi (e - ?e) * 2 powi ?e"
      using True by (simp add: power_int_def)
    also have "\<dots> = r" unfolding assms(1) by (simp add: power_int_diff)
    finally show ?thesis using pos assms(5) by (simp add: binary64_def Let_def)
  next
    case False
    then have l: "?l = 53 + e" using le assms(4) by auto
    then have "2 powi (53 + e) \<le> rat_of_int m * 2 powi e" using b assms(1) by simp
    then have "2 ^ 53 * 2 powi e \<le> rat_of_int m * 2 powi e" by (simp add: power_int_add)
    then have "(2::rat) ^ 53 \<le> rat_of_int m" by simp
    then have "rat_of_int (2 ^ 53) \<le> rat_of_int m" by simp
    then have m: "m = 2 ^ 53" using assms(3) by (simp only: of_int_le_iff)
    have e': "?e = e + 1" using l assms(4) by simp
    have rm: "r = 2 ^ 53 * 2 powi e" using assms(1) m by simp
    have "r / 2 powi (e + 1) = rat_of_int (2 ^ 52)"
      unfolding rm by (simp add: power_int_add)
    then have "round_half_even (r / 2 powi (e + 1)) = 2 ^ 52"
      by (simp only: round_half_even_int)
    then have "rat_of_int (round_half_even (r / 2 powi (e + 1))) * 2 powi (e + 1) =
        2 ^ 52 * 2 powi (e + 1)"
      by simp
    also have "\<dots> = r" unfolding rm by (simp add: power_int_add)
    finally have "rat_of_int (round_half_even (r / 2 powi ?e)) * 2 powi ?e = r"
      by (simp only: e')
    then show ?thesis using pos assms(5) by (simp add: binary64_def Let_def)
  qed
qed

lemma binary64_minus: "binary64 (- r) = num_neg (binary64 r)"
  by (cases "r = 0") (auto simp: binary64_def Let_def)

lemma binary64_int:
  assumes "\<bar>n\<bar> \<le> 2 ^ 53"
  shows "binary64 (rat_of_int n) = Fin (rat_of_int n)"
proof -
  have pos: "binary64 (rat_of_int m) = Fin (rat_of_int m)" if "0 < m" "m \<le> 2 ^ 53" for m
  proof (rule binary64_exact [of _ m 0])
    show "rat_of_int m = rat_of_int m * 2 powi 0" by simp
    have "rat_of_int m \<le> rat_of_int (2 ^ 53)" using that(2) by (simp only: of_int_le_iff)
    also have "\<dots> < 2 ^ 1024" by simp
    finally show "rat_of_int m < 2 ^ 1024" .
  qed (use that in simp_all)
  consider "n = 0" | "0 < n" | "n < 0" by linarith
  then show ?thesis
  proof cases
    case 1
    then show ?thesis by (simp add: binary64_def)
  next
    case 2
    then show ?thesis using assms by (intro pos) simp_all
  next
    case 3
    then have "binary64 (rat_of_int (- n)) = Fin (rat_of_int (- n))"
      using assms by (intro pos) simp_all
    moreover have "binary64 (rat_of_int n) = num_neg (binary64 (rat_of_int (- n)))"
      using binary64_minus [of "rat_of_int (- n)"] by simp
    ultimately show ?thesis by simp
  qed
qed

lemma binary64_numeral:
  "numeral w \<le> (2 ^ 53 :: int) \<Longrightarrow> binary64 (numeral w) = Fin (numeral w)"
  using binary64_int [of "numeral w"] by simp

lemma binary64_0: "binary64 0 = Fin 0"
  by (simp add: binary64_def)

lemma binary64_1: "binary64 1 = Fin 1"
  using binary64_int [of 1] by simp

lemma floor_le_round_half_even: "\<lfloor>x\<rfloor> \<le> round_half_even x"
  by (simp add: round_half_even_def Let_def)

lemma binary64_overflow:
  assumes "2 ^ 1024 \<le> r"
  shows "binary64 r = PosInf"
proof -
  have pos: "0 < r" using assms by (meson less_le_trans zero_less_numeral zero_less_power)
  note b = floor_log2_bounds [OF pos]
  let ?l = "floor_log2 r"
  have "(2::rat) powi 1024 \<le> r" using assms by (simp add: power_int_def)
  then have "(2::rat) powi 1024 < 2 powi (?l + 1)" using b by simp
  then have l: "1024 \<le> ?l" using pow2_less_D [of 1024 "?l + 1"] by simp
  then have e: "max (?l - 52) (- 1074) = ?l - 52" by simp
  have "rat_of_int (2 ^ 52) = 2 powi ?l / 2 powi (?l - 52)" by (simp add: power_int_diff)
  also have "\<dots> \<le> r / 2 powi (?l - 52)" using b by (intro divide_right_mono) simp_all
  finally have "2 ^ 52 \<le> \<lfloor>r / 2 powi (?l - 52)\<rfloor>" by (simp only: le_floor_iff)
  then have "2 ^ 52 \<le> round_half_even (r / 2 powi (?l - 52))"
    using floor_le_round_half_even [of "r / 2 powi (?l - 52)"] by linarith
  then have "rat_of_int (2 ^ 52) \<le> rat_of_int (round_half_even (r / 2 powi (?l - 52)))"
    by (simp only: of_int_le_iff)
  then have "rat_of_int (2 ^ 52) * 2 powi (?l - 52)
      \<le> rat_of_int (round_half_even (r / 2 powi (?l - 52))) * 2 powi (?l - 52)"
    by (intro mult_right_mono) simp_all
  moreover have "rat_of_int (2 ^ 52) * 2 powi (?l - 52) = 2 powi ?l"
    by (simp add: power_int_diff)
  moreover have "(2::rat) powi 1024 \<le> 2 powi ?l" using l by (intro power_int_increasing) simp_all
  ultimately have "2 ^ 1024 \<le> rat_of_int (round_half_even (r / 2 powi (?l - 52))) * 2 powi (?l - 52)"
    by (simp add: power_int_def)
  then show ?thesis using pos e by (simp add: binary64_def Let_def)
qed

lemma round_half_even_down:
  assumes "rat_of_int f \<le> x" "x < rat_of_int f + 1 / 2"
  shows "round_half_even x = f"
proof -
  have "\<lfloor>x\<rfloor> = f" using assms by (intro floor_unique) simp_all
  then show ?thesis using assms by (simp add: round_half_even_def Let_def)
qed

lemma round_half_even_up:
  assumes "rat_of_int f + 1 / 2 < x" "x < rat_of_int f + 1"
  shows "round_half_even x = f + 1"
proof -
  have "\<lfloor>x\<rfloor> = f" using assms by (intro floor_unique) simp_all
  then show ?thesis using assms by (simp add: round_half_even_def Let_def)
qed

lemma round_half_even_tie:
  assumes "x = rat_of_int f + 1 / 2"
  shows "round_half_even x = (if even f then f else f + 1)"
proof -
  have "\<lfloor>x\<rfloor> = f" using assms by (intro floor_unique) simp_all
  then show ?thesis using assms by (simp add: round_half_even_def Let_def)
qed

lemma binary64_tie_example: "binary64 9007199254740993 = Fin 9007199254740992"
proof -
  have r: "round_half_even (9007199254740993 / 2 powi 1) = 4503599627370496"
    using round_half_even_tie [of "9007199254740993 / 2 powi 1" 4503599627370496] by simp
  have "binary64 9007199254740993 =
      (if (2::rat) ^ 1024 \<le> 9007199254740992 then PosInf else Fin 9007199254740992)"
  proof (rule binary64_pos [of 53 _ 1])
    show "(2::rat) powi 53 \<le> 9007199254740993" by simp
    show "(9007199254740993::rat) < 2 powi (53 + 1)" by simp
    show "(1::int) = max (53 - 52) (- 1074)" by simp
    show "(9007199254740992::rat) =
        rat_of_int (round_half_even (9007199254740993 / 2 powi 1)) * 2 powi 1"
      unfolding r by simp
  qed
  then show ?thesis by simp
qed

lemma binary64_down_example: "binary64 (10000000000000001 / 10000000000000000) = Fin 1"
proof -
  let ?x = "10000000000000001 / 10000000000000000 :: rat"
  have r: "round_half_even (?x / 2 powi (- 52)) = 4503599627370496"
    by (rule round_half_even_down) (simp_all add: power_int_minus field_simps)
  have "binary64 ?x = (if (2::rat) ^ 1024 \<le> 1 then PosInf else Fin 1)"
  proof (rule binary64_pos [of 0 _ "- 52"])
    show "(2::rat) powi 0 \<le> ?x" by simp
    show "?x < 2 powi (0 + 1)" by simp
    show "(- 52 :: int) = max (0 - 52) (- 1074)" by simp
    show "(1::rat) = rat_of_int (round_half_even (?x / 2 powi (- 52))) * 2 powi (- 52)"
      unfolding r by (simp add: power_int_minus)
  qed
  then show ?thesis by simp
qed

subsection \<open>Auxiliary facts\<close>

lemma is_whole_iff: "is_whole r \<longleftrightarrow> r \<in> \<int>"
  unfolding is_whole_def by (metis Ints_of_int floor_of_int Ints_cases)

lemmas number_defs = trim_def is_whitespace_def StringToNumber_def
  NonDecimalIntegerLiteral_def radix_of_prefix_def is_radix_digit_def is_digit_def
  is_hex_letter_def digit_value_def digits_value_def StrDecimalLiteral_def
  StrUnsignedDecimalLiteral_def ExponentPart_def DecimalDigits_def scale10_def
  is_whole_iff Let_def binary64_numeral binary64_0 binary64_1

lemmas sample_defs = sample_URL_def sample_platform_def sample_state_def ok_response_def
  error_response_def sample_storage_def

lemmas handler_defs = handleSubmit_def try_block_def build_request_def isValidHttpUrl_def
  apiBaseUrl_def generatedShortUrl_def serverExpiresAt_def computedExpiry_def js_or_def
  Number_of_def history_entry_def history_updater_def parseValidityOrDefault_def

text \<open>White space: \<^verbatim>\<open>trim\<close> is idempotent.\<close>

lemma trim_Nil: "trim [] = []"
  by (simp add: trim_def)

lemma trim_fixed:
  assumes "s \<noteq> []" "\<not> is_whitespace (hd s)" "\<not> is_whitespace (last s)"
  shows "trim s = s"
proof -
  have a: "dropWhile is_whitespace s = s"
    using assms by (cases s) auto
  have "rev s \<noteq> []" "\<not> is_whitespace (hd (rev s))"
    using assms by (simp_all add: hd_rev)
  then have "dropWhile is_whitespace (rev s) = rev s"
    by (cases "rev s") auto
  with a show ?thesis by (simp add: trim_def)
qed

lemma trim_ends:
  assumes "trim s \<noteq> []"
  shows "\<not> is_whitespace (hd (trim s)) \<and> \<not> is_whitespace (last (trim s))"
proof -
  let ?a = "dropWhile is_whitespace s"
  let ?b = "dropWhile is_whitespace (rev ?a)"
  have b: "?b \<noteq> []" using assms by (simp add: trim_def)
  then have l: "\<not> is_whitespace (hd ?b)" by (rule hd_dropWhile)
  have a: "?a \<noteq> []" using b by (metis dropWhile.simps(1) rev.simps(1))
  then have h: "\<not> is_whitespace (hd ?a)" by (rule hd_dropWhile)
  have "rev ?a = takeWhile is_whitespace (rev ?a) @ ?b" by simp
  then have "last (rev ?a) = last ?b" using b by (metis last_appendR)
  then have "last ?b = hd ?a" using a by (simp add: last_rev)
  then have "hd (rev ?b) = hd ?a" using b by (simp add: hd_rev)
  moreover have "last (rev ?b) = hd ?b" using b by (simp add: last_rev)
  ultimately show ?thesis using h l by (simp add: trim_def)
qed

lemma trim_idem: "trim (trim s) = trim s"
proof (cases "trim s = []")
  case True
  then show ?thesis by (metis trim_Nil)
next
  case False
  then show ?thesis using trim_ends [OF False] by (intro trim_fixed) auto
qed

text \<open>The conversion of a string of decimal digits, with or without a sign.\<close>

lemma non_digits:
  "\<not> is_digit CHR ''+''" "\<not> is_digit CHR ''-''" "\<not> is_digit CHR ''I''"
  "\<not> is_digit CHR ''x''" "\<not> is_digit CHR ''X''" "\<not> is_digit CHR ''o''"
  "\<not> is_digit CHR ''O''" "\<not> is_digit CHR ''b''" "\<not> is_digit CHR ''B''"
  by (simp_all add: is_digit_def)

lemma digit_not_special:
  assumes "is_digit c"
  shows "c \<noteq> CHR ''+''" "c \<noteq> CHR ''-''" "c \<noteq> CHR ''I''" "radix_of_prefix c = 0"
proof -
  show "c \<noteq> CHR ''+''" "c \<noteq> CHR ''-''" "c \<noteq> CHR ''I''"
    using assms non_digits by blast+
  have "c \<noteq> CHR ''x''" "c \<noteq> CHR ''X''" "c \<noteq> CHR ''o''" "c \<noteq> CHR ''O''"
    "c \<noteq> CHR ''b''" "c \<noteq> CHR ''B''"
    using assms non_digits by blast+
  then show "radix_of_prefix c = 0" by (simp add: radix_of_prefix_def)
qed

lemma unsigned_digits:
  assumes "d \<noteq> []" "list_all is_digit d"
  shows "StrUnsignedDecimalLiteral d = binary64 (of_nat (digits_value 10 d))"
proof -
  have h: "is_digit (hd d)" using assms by (cases d) auto
  then have "hd d \<noteq> CHR ''I''" using digit_not_special by blast
  then have ni: "d \<noteq> ''Infinity''" by auto
  have t: "takeWhile is_digit d = d" "dropWhile is_digit d = []"
    using assms(2) by (simp_all add: list_all_iff)
  show ?thesis unfolding StrUnsignedDecimalLiteral_def Let_def t
    using assms(1) ni by (simp add: ExponentPart_def scale10_def)
qed

lemma nondecimal_digits:
  assumes "list_all is_digit d"
  shows "NonDecimalIntegerLiteral d = None"
proof (cases "2 < length d")
  case True
  then have "is_digit (d ! 1)" using assms by (simp add: list_all_length)
  then show ?thesis using digit_not_special by (simp add: NonDecimalIntegerLiteral_def)
next
  case False
  then show ?thesis by (simp add: NonDecimalIntegerLiteral_def)
qed

lemma nondecimal_signed:
  "c \<noteq> CHR ''0'' \<Longrightarrow> NonDecimalIntegerLiteral (c # d) = None"
  by (simp add: NonDecimalIntegerLiteral_def)

lemma DecimalDigits_Some:
  "DecimalDigits d = Some n \<longleftrightarrow> d \<noteq> [] \<and> list_all is_digit d \<and> n = digits_value 10 d"
  by (auto simp: DecimalDigits_def)

lemma StringToNumber_base10:
  assumes "trim t = t" "base10_integer t = Some n"
  shows "StringToNumber t = binary64 (of_int n)"
proof -
  consider (neg) d where "t = CHR ''-'' # d" "DecimalDigits d = Some (nat (- n))" "n \<le> 0"
    | (pos) d where "t = CHR ''+'' # d" "DecimalDigits d = Some (nat n)" "0 \<le> n"
    | (plain) "t \<noteq> []" "hd t \<noteq> CHR ''-''" "hd t \<noteq> CHR ''+''"
        "DecimalDigits t = Some (nat n)" "0 \<le> n"
    using assms(2) unfolding base10_integer_def
    by (cases t) (auto split: if_splits simp: DecimalDigits_def)
  then show ?thesis
  proof cases
    case neg
    then have "StrUnsignedDecimalLiteral d = binary64 (of_nat (nat (- n)))"
      using unsigned_digits [of d] by (simp add: DecimalDigits_Some)
    moreover have "num_neg (binary64 (rat_of_nat (nat (- n)))) = binary64 (rat_of_int n)"
      using neg(3) binary64_minus [of "rat_of_int (- n)"] by simp
    ultimately show ?thesis using neg assms(1)
      by (simp add: StringToNumber_def nondecimal_signed StrDecimalLiteral_def)
  next
    case pos
    then have "StrUnsignedDecimalLiteral d = binary64 (of_nat (nat n))"
      using unsigned_digits [of d] by (simp add: DecimalDigits_Some)
    then show ?thesis using pos assms(1)
      by (simp add: StringToNumber_def nondecimal_signed StrDecimalLiteral_def)
  next
    case plain
    then have "StrUnsignedDecimalLiteral t = binary64 (of_nat (nat n))"
      using unsigned_digits [of t] by (simp add: DecimalDigits_Some)
    moreover have "NonDecimalIntegerLiteral t = None"
      using plain nondecimal_digits [of t] by (simp add: DecimalDigits_Some)
    ultimately show ?thesis using plain assms(1)
      by (simp add: StringToNumber_def StrDecimalLiteral_def)
  qed
qed

lemma parseValidity_positive:
  assumes "parseValidityOrDefault v = Some x"
  shows "\<exists>k. 0 < k \<and> x = Fin (rat_of_int k)"
proof (cases "v = [] \<or> trim v = []")
  case True
  then have "x = Fin (rat_of_int 30)" using assms by (auto simp: parseValidityOrDefault_def)
  then show ?thesis by (intro exI [of _ 30]) simp
next
  case False
  then have "Number_isInteger x \<and> \<not> num_le x (Fin 0)"
    using assms by (auto simp: parseValidityOrDefault_def Let_def split: if_splits)
  then obtain r where r: "x = Fin r" "r \<in> \<int>" "0 < r"
    by (cases x) (auto simp: is_whole_iff)
  then obtain k where "r = rat_of_int k" by (auto elim: Ints_cases)
  with r show ?thesis by auto
qed

lemma parseValidity_blank: "trim v = [] \<Longrightarrow> parseValidityOrDefault v = Some (Fin 30)"
  by (simp add: parseValidityOrDefault_def)

lemma parseValidity_base10:
  assumes "base10_integer (trim v) = Some n" "\<bar>n\<bar> \<le> 2 ^ 53"
  shows "parseValidityOrDefault v = (if 0 < n then Some (Fin (rat_of_int n)) else None)"
    and "resolveValidity_spec v = (if 0 < n then Some n else None)"
proof -
  have ne: "trim v \<noteq> []" using assms(1) by (auto simp: base10_integer_def DecimalDigits_def)
  have "StringToNumber (trim v) = binary64 (rat_of_int n)"
    using StringToNumber_base10 [OF trim_idem assms(1)] .
  then have "StringToNumber (trim v) = Fin (rat_of_int n)"
    using binary64_int [OF assms(2)] by simp
  moreover have "v \<noteq> []" using ne trim_Nil by auto
  ultimately show "parseValidityOrDefault v = (if 0 < n then Some (Fin (rat_of_int n)) else None)"
    using ne by (auto simp: parseValidityOrDefault_def is_whole_iff)
  show "resolveValidity_spec v = (if 0 < n then Some n else None)"
    using ne assms(1) by (simp add: resolveValidity_spec_def)
qed

text \<open>Binary, octal and hexadecimal literals.\<close>

lemma radix_digit_not_whitespace: "is_radix_digit b c \<Longrightarrow> \<not> is_whitespace c"
  by (auto simp: is_radix_digit_def is_digit_def is_hex_letter_def is_whitespace_def)

lemma parseValidity_nondecimal:
  assumes "radix_of_prefix p \<noteq> 0" "ds \<noteq> []"
    and "list_all (is_radix_digit (radix_of_prefix p)) ds"
    and "digits_value (radix_of_prefix p) ds \<le> 2 ^ 53"
  shows "parseValidityOrDefault (CHR ''0'' # p # ds) =
    (if 0 < digits_value (radix_of_prefix p) ds
     then Some (Fin (rat_of_nat (digits_value (radix_of_prefix p) ds))) else None)"
proof -
  let ?s = "CHR ''0'' # p # ds" and ?n = "digits_value (radix_of_prefix p) ds"
  have "is_radix_digit (radix_of_prefix p) (last ds)"
    using assms(2,3) by (simp add: list_all_iff)
  then have "\<not> is_whitespace (last ?s)"
    using assms(2) radix_digit_not_whitespace by simp
  moreover have "\<not> is_whitespace (hd ?s)" by (simp add: is_whitespace_def)
  ultimately have t: "trim ?s = ?s" by (intro trim_fixed) simp_all
  have "int ?n \<le> int (2 ^ 53)" using assms(4) by (simp only: of_nat_le_iff)
  then have "\<bar>int ?n\<bar> \<le> 2 ^ 53" by simp
  then have b: "binary64 (rat_of_nat ?n) = Fin (rat_of_nat ?n)"
    using binary64_int [of "int ?n"] by simp
  have "NonDecimalIntegerLiteral ?s = Some (Fin (rat_of_nat ?n))"
    using assms(1-3) b by (simp add: NonDecimalIntegerLiteral_def Let_def)
  then have "StringToNumber ?s = Fin (rat_of_nat ?n)"
    using t by (simp add: StringToNumber_def)
  then show ?thesis
    unfolding parseValidityOrDefault_def t by (simp add: is_whole_iff)
qed

subsection \<open>The validators\<close>

lemma binary64_half_example: "binary64 (5 / 2) = Fin (5 / 2)"
  by (rule binary64_exact [of _ 5 "- 1"]) simp_all

lemma validity_examples:
  "parseValidityOrDefault ''15'' = Some (Fin 15)"
  "parseValidityOrDefault ''0'' = None"
  "parseValidityOrDefault ''-5'' = None"
  "parseValidityOrDefault ''2.5'' = None"
  "parseValidityOrDefault ''abc'' = None"
  "parseValidityOrDefault ''0x10'' = Some (Fin 16)"
  "parseValidityOrDefault ''1e3'' = Some (Fin 1000)"
  "parseValidityOrDefault ''2.0'' = Some (Fin 2)"
  "parseValidityOrDefault ''0o17'' = Some (Fin 15)"
  "parseValidityOrDefault ''0b101'' = Some (Fin 5)"
  "parseValidityOrDefault ''25e-1'' = None"
  "parseValidityOrDefault ''250e-1'' = Some (Fin 25)"
  "parseValidityOrDefault [CHR 0x09, CHR 0xA0, CHR 0x0A] = Some (Fin 30)"
  by (simp_all add: parseValidityOrDefault_def number_defs binary64_half_example)

lemma validity_rounding_examples:
  "parseValidityOrDefault ''1e309'' = None"
  "parseValidityOrDefault ''1.0000000000000001'' = Some (Fin 1)"
  "parseValidityOrDefault ''9007199254740993'' = Some (Fin 9007199254740992)"
  by (simp_all add: parseValidityOrDefault_def number_defs binary64_overflow
      binary64_down_example binary64_tie_example)

text \<open>
  Claim C3, as the code has it. \<^verbatim>\<open>parseValidityOrDefault\<close> returns the default 30 for
  input that is empty or only white space (tabs, line breaks and no-break spaces
  included). Any other input is trimmed and converted by \<^verbatim>\<open>Number\<close>, not read as a
  base-10 integer: the result is that number when it is whole and greater than 0, and
  \<^verbatim>\<open>null\<close> otherwise; there is no exception.
  \<^item> On a base-10 integer (an optional sign and decimal digits) of magnitude up to
    \<open>2 ^ 53\<close> the code agrees with the specification's reading: a positive integer is
    returned, zero and negative integers are rejected.
  \<^item> A literal \<^verbatim>\<open>0x\<close>, \<^verbatim>\<open>0o\<close> or \<^verbatim>\<open>0b\<close> with digits of its radix and a value up to
    \<open>2 ^ 53\<close> is returned with that value when it is not zero.
  \<^item> A valid result is always a positive whole number.
  \<^item> \<^verbatim>\<open>"15"\<close> is valid; \<^verbatim>\<open>"0"\<close>, \<^verbatim>\<open>"-5"\<close>, \<^verbatim>\<open>"2.5"\<close>, \<^verbatim>\<open>"25e-1"\<close> and \<^verbatim>\<open>"abc"\<close> are not;
    \<^verbatim>\<open>"0x10"\<close>, \<^verbatim>\<open>"0o17"\<close>, \<^verbatim>\<open>"0b101"\<close>, \<^verbatim>\<open>"1e3"\<close>, \<^verbatim>\<open>"250e-1"\<close> and \<^verbatim>\<open>"2.0"\<close> are valid,
    with the values 16, 15, 5, 1000, 25 and 2.
  \<^item> The conversion rounds to binary64: \<^verbatim>\<open>"1e309"\<close> is infinite and so invalid,
    \<^verbatim>\<open>"1.0000000000000001"\<close> is valid with the value 1, and \<^verbatim>\<open>"9007199254740993"\<close> is
    valid with the value 9007199254740992.
\<close>

theorem parseValidity_number_conversion:
  "(trim v = [] \<longrightarrow> parseValidityOrDefault v = Some (Fin 30)) \<and>
   (trim v \<noteq> [] \<longrightarrow>
      parseValidityOrDefault v =
        (case StringToNumber (trim v) of
           Fin r \<Rightarrow> if r \<in> \<int> \<and> 0 < r then Some (Fin r) else None
         | _ \<Rightarrow> None)) \<and>
   (\<forall>n. base10_integer (trim v) = Some n \<and> \<bar>n\<bar> \<le> 2 ^ 53 \<longrightarrow>
      parseValidityOrDefault v = (if 0 < n then Some (Fin (rat_of_int n)) else None) \<and>
      parseValidityOrDefault v =
        map_option (\<lambda>n. Fin (rat_of_int n)) (resolveValidity_spec v)) \<and>
   (\<forall>p ds. v = CHR ''0'' # p # ds \<and> radix_of_prefix p \<noteq> 0 \<and> ds \<noteq> [] \<and>
      list_all (is_radix_digit (radix_of_prefix p)) ds \<and>
      digits_value (radix_of_prefix p) ds \<le> 2 ^ 53 \<longrightarrow>
      parseValidityOrDefault v =
        (if 0 < digits_value (radix_of_prefix p) ds
         then Some (Fin (rat_of_nat (digits_value (radix_of_prefix p) ds))) else None)) \<and>
   (\<forall>x. parseValidityOrDefault v = Some x \<longrightarrow> (\<exists>k. 0 < k \<and> x = Fin (rat_of_int k))) \<and>
   parseValidityOrDefault [CHR 0x09, CHR 0xA0, CHR 0x0A] = Some (Fin 30) \<and>
   parseValidityOrDefault ''15'' = Some (Fin 15) \<and>
   parseValidityOrDefault ''0'' = None \<and>
   parseValidityOrDefault ''-5'' = None \<and>
   parseValidityOrDefault ''2.5'' = None \<and>
   parseValidityOrDefault ''25e-1'' = None \<and>
   parseValidityOrDefault ''abc'' = None \<and>
   parseValidityOrDefault ''0x10'' = Some (Fin 16) \<and>
   parseValidityOrDefault ''0o17'' = Some (Fin 15) \<and>
   parseValidityOrDefault ''0b101'' = Some (Fin 5) \<and>
   parseValidityOrDefault ''1e3'' = Some (Fin 1000) \<and>
   parseValidityOrDefault ''250e-1'' = Some (Fin 25) \<and>
   parseValidityOrDefault ''2.0'' = Some (Fin 2) \<and>
   parseValidityOrDefault ''1e309'' = None \<and>
   parseValidityOrDefault ''1.0000000000000001'' = Some (Fin 1) \<and>
   parseValidityOrDefault ''9007199254740993'' = Some (Fin 9007199254740992)"
proof -
  have blank: "trim v = [] \<longrightarrow> parseValidityOrDefault v = Some (Fin 30)"
    by (simp add: parseValidity_blank)
  have conv: "trim v \<noteq> [] \<longrightarrow>
      parseValidityOrDefault v =
        (case StringToNumber (trim v) of
           Fin r \<Rightarrow> if r \<in> \<int> \<and> 0 < r then Some (Fin r) else None
         | _ \<Rightarrow> None)"
  proof
    assume ne: "trim v \<noteq> []"
    then have "v \<noteq> []" using trim_Nil by auto
    then show "parseValidityOrDefault v =
        (case StringToNumber (trim v) of
           Fin r \<Rightarrow> if r \<in> \<int> \<and> 0 < r then Some (Fin r) else None
         | _ \<Rightarrow> None)"
      using ne by (cases "StringToNumber (trim v)")
        (auto simp: parseValidityOrDefault_def is_whole_iff)
  qed
  have b10: "\<forall>n. base10_integer (trim v) = Some n \<and> \<bar>n\<bar> \<le> 2 ^ 53 \<longrightarrow>
      parseValidityOrDefault v = (if 0 < n then Some (Fin (rat_of_int n)) else None) \<and>
      parseValidityOrDefault v =
        map_option (\<lambda>n. Fin (rat_of_int n)) (resolveValidity_spec v)"
  proof (intro allI impI)
    fix n assume n: "base10_integer (trim v) = Some n \<and> \<bar>n\<bar> \<le> 2 ^ 53"
    then have a: "parseValidityOrDefault v = (if 0 < n then Some (Fin (rat_of_int n)) else None)"
      and b: "resolveValidity_spec v = (if 0 < n then Some n else None)"
      using parseValidity_base10 [of v n] by simp_all
    show "parseValidityOrDefault v =
        (if 0 < n then Some (Fin (rat_of_int n)) else None) \<and>
      parseValidityOrDefault v =
        map_option (\<lambda>n. Fin (rat_of_int n)) (resolveValidity_spec v)"
      unfolding a b by simp
  qed
  have radix: "\<forall>p ds. v = CHR ''0'' # p # ds \<and> radix_of_prefix p \<noteq> 0 \<and> ds \<noteq> [] \<and>
      list_all (is_radix_digit (radix_of_prefix p)) ds \<and>
      digits_value (radix_of_prefix p) ds \<le> 2 ^ 53 \<longrightarrow>
      parseValidityOrDefault v =
        (if 0 < digits_value (radix_of_prefix p) ds
         then Some (Fin (rat_of_nat (digits_value (radix_of_prefix p) ds))) else None)"
    using parseValidity_nondecimal by blast
  have pos: "\<forall>x. parseValidityOrDefault v = Some x \<longrightarrow>
      (\<exists>k. 0 < k \<and> x = Fin (rat_of_int k))"
    using parseValidity_positive by blast
  from blank conv b10 radix pos validity_examples validity_rounding_examples
  show ?thesis by (intro conjI)
qed

text \<open>
  The theorem at blank input, at \<^verbatim>\<open>" 15 "\<close>, a base-10 integer between white space, and
  at the hexadecimal literal \<^verbatim>\<open>0x1f\<close>.
\<close>

theorem parseValidity_number_conversion_witness:
  "trim ''  '' = [] \<and> parseValidityOrDefault ''  '' = Some (Fin 30) \<and>
   trim '' 15 '' \<noteq> [] \<and> base10_integer (trim '' 15 '') = Some 15 \<and>
   parseValidityOrDefault '' 15 '' = Some (Fin 15) \<and>
   radix_of_prefix CHR ''x'' = 16 \<and> list_all (is_radix_digit 16) ''1f'' \<and>
   digits_value 16 ''1f'' = 31 \<and>
   parseValidityOrDefault ''0x1f'' = Some (Fin 31)"
proof -
  have b: "trim ''  '' = []" by (simp add: number_defs)
  have t: "trim '' 15 '' = ''15''" by (simp add: number_defs)
  have n: "base10_integer (trim '' 15 '') = Some 15 \<and> \<bar>15 :: int\<bar> \<le> 2 ^ 53"
    by (simp add: t base10_integer_def number_defs)
  have x: "radix_of_prefix CHR ''x'' = 16" "list_all (is_radix_digit 16) ''1f''"
    "digits_value 16 ''1f'' = 31"
    by (simp_all add: number_defs)
  have h: "''0x1f'' = CHR ''0'' # CHR ''x'' # ''1f'' \<and> radix_of_prefix CHR ''x'' \<noteq> 0 \<and>
      ''1f'' \<noteq> [] \<and> list_all (is_radix_digit (radix_of_prefix CHR ''x'')) ''1f'' \<and>
      digits_value (radix_of_prefix CHR ''x'') ''1f'' \<le> 2 ^ 53"
    using x by simp
  from parseValidity_number_conversion [of "''  ''"] b
  have 1: "parseValidityOrDefault ''  '' = Some (Fin 30)" by blast
  from parseValidity_number_conversion [of "'' 15 ''"] n
  have 2: "parseValidityOrDefault '' 15 '' =
      (if 0 < (15 :: int) then Some (Fin (rat_of_int 15)) else None)"
    by blast
  from parseValidity_number_conversion [of "''0x1f''"] h
  have 3: "parseValidityOrDefault ''0x1f'' =
      (if 0 < digits_value (radix_of_prefix CHR ''x'') ''1f''
       then Some (Fin (rat_of_nat (digits_value (radix_of_prefix CHR ''x'') ''1f''))) else None)"
    by blast
  have 4: "parseValidityOrDefault ''0x1f'' = Some (Fin 31)" unfolding 3 x by simp
  from 1 2 4 b t n x show ?thesis by simp
qed

text \<open>
  Claim C3 as the specification words it fails: \<^verbatim>\<open>"0x10"\<close> is not a base-10 integer, so
  the specification's reading rejects it, and the code returns 16.
\<close>

theorem parseValidity_hex_counterexample:
  "parseValidityOrDefault ''0x10'' = Some (Fin 16) \<and> resolveValidity_spec ''0x10'' = None"
  by (simp add: parseValidityOrDefault_def resolveValidity_spec_def base10_integer_def
      number_defs)

text \<open>
  Claim C4. \<^verbatim>\<open>isValidHttpUrl\<close> is true exactly when the constructor accepts the string and
  the protocol of the result is \<^verbatim>\<open>http:\<close> or \<^verbatim>\<open>https:\<close>; when the constructor throws or the
  protocol is another one it is false, and nothing is thrown (the function is total).
  With a constructor that parses \<^verbatim>\<open>https://example.com\<close> and \<^verbatim>\<open>ftp://x\<close> to their schemes
  and throws on \<^verbatim>\<open>not a url\<close>, the first is valid and the other two are not.
\<close>

theorem isValidHttpUrl_http_only:
  "(isValidHttpUrl U v \<longleftrightarrow>
      (\<exists>u. U v = Some u \<and> (protocol u = ''http:'' \<or> protocol u = ''https:''))) \<and>
   (U v = None \<longrightarrow> \<not> isValidHttpUrl U v) \<and>
   (\<forall>u. U v = Some u \<and> protocol u \<noteq> ''http:'' \<and> protocol u \<noteq> ''https:'' \<longrightarrow>
      \<not> isValidHttpUrl U v) \<and>
   (U ''https://example.com'' = Some \<lparr>protocol = ''https:''\<rparr> \<longrightarrow>
      isValidHttpUrl U ''https://example.com'') \<and>
   (U ''ftp://x'' = Some \<lparr>protocol = ''ftp:''\<rparr> \<longrightarrow> \<not> isValidHttpUrl U ''ftp://x'') \<and>
   (U ''not a url'' = None \<longrightarrow> \<not> isValidHttpUrl U ''not a url'')"
  by (auto simp: isValidHttpUrl_def split: option.splits)

theorem isValidHttpUrl_http_only_witness:
  "sample_URL ''https://example.com'' = Some \<lparr>protocol = ''https:''\<rparr> \<and>
   sample_URL ''ftp://x'' = Some \<lparr>protocol = ''ftp:''\<rparr> \<and>
   sample_URL ''not a url'' = None \<and>
   isValidHttpUrl sample_URL ''https://example.com'' \<and>
   \<not> isValidHttpUrl sample_URL ''ftp://x'' \<and>
   \<not> isValidHttpUrl sample_URL ''not a url''"
proof -
  have h: "sample_URL ''https://example.com'' = Some \<lparr>protocol = ''https:''\<rparr>"
    "sample_URL ''ftp://x'' = Some \<lparr>protocol = ''ftp:''\<rparr>"
    "sample_URL ''not a url'' = None"
    by (simp_all add: sample_URL_def)
  from isValidHttpUrl_http_only [of sample_URL] h show ?thesis by blast
qed

subsection \<open>The history and its persisted copy\<close>

lemma take_append_take: "take n (xs @ take n ys) = take n (xs @ ys)"
  by (simp add: min_def)

lemma foldl_updater:
  "es \<noteq> [] \<Longrightarrow> foldl (\<lambda>h e. history_updater e h) h es = take 20 (rev es @ h)"
proof (induction es arbitrary: h)
  case Nil
  then show ?case by simp
next
  case (Cons e es)
  show ?case
  proof (cases "es = []")
    case True
    then show ?thesis by (simp add: history_updater_def)
  next
    case False
    then have "foldl (\<lambda>h e. history_updater e h) (history_updater e h) es
        = take 20 (rev es @ take 20 (e # h))"
      using Cons.IH by (simp add: history_updater_def)
    also have "\<dots> = take 20 (rev es @ e # h)" by (rule take_append_take)
    finally show ?thesis by simp
  qed
qed

lemma apply_op_bound: "length (apply_op h op) \<le> 20"
  by (cases op) (simp_all add: history_updater_def handleClearHistory_def)

lemma foldl_apply_op_bound:
  "length h \<le> 20 \<Longrightarrow> length (foldl apply_op h ops) \<le> 20"
  by (induction ops arbitrary: h) (simp_all add: apply_op_bound)

lemma foldl_records:
  "foldl apply_op h (map Record es) = foldl (\<lambda>h e. history_updater e h) h es"
  by (induction es arbitrary: h) simp_all

lemma twentyone_records:
  assumes "length es = 21"
  shows "foldl apply_op h (map Record es) = rev (tl es)"
proof -
  have ne: "es \<noteq> []" using assms by auto
  have "foldl apply_op h (map Record es) = take 20 (rev es @ h)"
    using foldl_updater [OF ne] by (simp add: foldl_records)
  also have "\<dots> = take 20 (rev es)" using assms by simp
  also have "\<dots> = rev (drop 1 es)" using assms by (simp add: take_rev)
  finally show ?thesis by (simp add: drop_Suc)
qed

text \<open>
  Claim C2. After a record or a clear the history has at most 20 entries, whatever it
  held before, and so after any sequence of the two operations. Recording 21 entries
  \<open>es\<close>, onto any history, leaves exactly 20: the entries recorded second to last, the
  newest first. The entry recorded last is at index 0, and the entry recorded first is
  gone (unless a later entry equals it).
\<close>

theorem history_bounded_fifo:
  "length (apply_op h op) \<le> 20 \<and>
   (length h \<le> 20 \<longrightarrow> length (foldl apply_op h ops) \<le> 20) \<and>
   (length es = 21 \<longrightarrow>
      length (foldl apply_op h (map Record es)) = 20 \<and>
      foldl apply_op h (map Record es) = rev (tl es) \<and>
      foldl apply_op h (map Record es) ! 0 = es ! 20 \<and>
      (es ! 0 \<notin> set (tl es) \<longrightarrow> es ! 0 \<notin> set (foldl apply_op h (map Record es))))"
proof (intro conjI impI)
  show "length (apply_op h op) \<le> 20" by (rule apply_op_bound)
next
  assume "length h \<le> 20"
  then show "length (foldl apply_op h ops) \<le> 20" by (rule foldl_apply_op_bound)
next
  assume l: "length es = 21"
  then show eq: "foldl apply_op h (map Record es) = rev (tl es)"
    by (rule twentyone_records)
  show "length (foldl apply_op h (map Record es)) = 20" using l by (simp add: eq)
  have ne: "tl es \<noteq> []" using l by (cases es) auto
  then have "rev (tl es) ! 0 = last (tl es)"
    by (simp add: hd_rev flip: hd_conv_nth)
  also have "\<dots> = tl es ! (length (tl es) - 1)" using ne by (rule last_conv_nth)
  also have "\<dots> = es ! 20" using l by (simp add: nth_tl)
  finally show "foldl apply_op h (map Record es) ! 0 = es ! 20" by (simp add: eq)
next
  assume "length es = 21" "es ! 0 \<notin> set (tl es)"
  then show "es ! 0 \<notin> set (foldl apply_op h (map Record es))"
    by (simp add: twentyone_records)
qed

text \<open>The theorem at the entries 1 to 21, recorded onto the empty history.\<close>

theorem history_bounded_fifo_witness:
  "length [1, 2, 3, 4, 5, 6, 7, 8, 9, 10, 11, 12, 13, 14, 15, 16, 17, 18, 19, 20, 21 :: nat] = 21 \<and>
   foldl apply_op []
     (map Record [1, 2, 3, 4, 5, 6, 7, 8, 9, 10, 11, 12, 13, 14, 15, 16, 17, 18, 19, 20, 21 :: nat])
     = [21, 20, 19, 18, 17, 16, 15, 14, 13, 12, 11, 10, 9, 8, 7, 6, 5, 4, 3, 2] \<and>
   (1 :: nat) \<notin> set (foldl apply_op []
     (map Record [1, 2, 3, 4, 5, 6, 7, 8, 9, 10, 11, 12, 13, 14, 15, 16, 17, 18, 19, 20, 21 :: nat]))"
proof -
  let ?es = "[1, 2, 3, 4, 5, 6, 7, 8, 9, 10, 11, 12, 13, 14, 15, 16, 17, 18, 19, 20, 21 :: nat]"
  have l: "length ?es = 21" by simp
  have d: "?es ! 0 \<notin> set (tl ?es)" by simp
  from history_bounded_fifo [of "[]" Clear "[]" ?es] l d
  have "foldl apply_op [] (map Record ?es) = rev (tl ?es) \<and>
        ?es ! 0 \<notin> set (foldl apply_op [] (map Record ?es))"
    by blast
  then show ?thesis by simp
qed





text \<open>
  Claim C9. When reading the storage area throws, when there is no item under the key,
  or when the item is the empty string or is not well-formed JSON, the initialiser
  returns the empty array. It is a total function: no exception reaches the caller.
\<close>

theorem load_never_faults:
  "read_fault st \<or> item st = None \<or> item st = Some EmptyText \<or> item st = Some MalformedText
   \<Longrightarrow> load_history st = Arr []"
  by (auto simp: load_history_def getItem_def)

text \<open>
  The theorem at a storage area that throws on reading, at one without the item, and at
  one whose item is malformed.
\<close>

theorem load_never_faults_witness:
  "load_history \<lparr>item = Some (JsonText (JArr [JNull])), read_fault = True, write_fault = False\<rparr>
     = Arr [] \<and>
   load_history \<lparr>item = None, read_fault = False, write_fault = False\<rparr> = Arr [] \<and>
   load_history \<lparr>item = Some MalformedText, read_fault = False, write_fault = False\<rparr> = Arr []"
proof -
  have "load_history
      \<lparr>item = Some (JsonText (JArr [JNull])), read_fault = True, write_fault = False\<rparr> = Arr []"
    by (rule load_never_faults) simp
  moreover have "load_history \<lparr>item = None, read_fault = False, write_fault = False\<rparr> = Arr []"
    by (rule load_never_faults) simp
  moreover have
    "load_history \<lparr>item = Some MalformedText, read_fault = False, write_fault = False\<rparr> = Arr []"
    by (rule load_never_faults) simp
  ultimately show ?thesis by simp
qed

subsection \<open>The submit handler, path by path\<close>

lemma handleSubmit_missing:
  assumes "trim (longUrl s) = []"
  shows "handleSubmit p s =
    (s\<lparr>errorMessage := ''Please enter a URL to shorten.'', shortUrl := Str [],
       expiresAt := Null\<rparr>, [])"
  using assms by (simp add: handleSubmit_def)

lemma handleSubmit_invalid_url:
  assumes "trim (longUrl s) \<noteq> []" "\<not> isValidHttpUrl (new_URL p) (trim (longUrl s))"
  shows "handleSubmit p s =
    (s\<lparr>errorMessage := ''Please enter a valid http(s) URL.'', shortUrl := Str [],
       expiresAt := Null\<rparr>, [])"
  using assms by (simp add: handleSubmit_def)

lemma handleSubmit_invalid_validity:
  assumes "trim (longUrl s) \<noteq> []" "isValidHttpUrl (new_URL p) (trim (longUrl s))"
    "parseValidityOrDefault (validityMinutes s) = None"
  shows "handleSubmit p s =
    (s\<lparr>errorMessage := ''Validity must be a positive integer (minutes).'',
       shortUrl := Str [], expiresAt := Null\<rparr>, [])"
  using assms by (simp add: handleSubmit_def)

lemma handleSubmit_thrown:
  assumes "trim (longUrl s) \<noteq> []" "isValidHttpUrl (new_URL p) (trim (longUrl s))"
    "parseValidityOrDefault (validityMinutes s) = Some minutes"
    "try_block p (build_request p s minutes) minutes = Inl m"
  shows "handleSubmit p s =
    (s\<lparr>errorMessage := (if m \<noteq> [] then m else ''Something went wrong''),
       shortUrl := Str [], expiresAt := Null, isLoading := False\<rparr>,
     [build_request p s minutes])"
  using assms by (simp add: handleSubmit_def)

lemma handleSubmit_success:
  assumes "trim (longUrl s) \<noteq> []" "isValidHttpUrl (new_URL p) (trim (longUrl s))"
    "parseValidityOrDefault (validityMinutes s) = Some minutes"
    "try_block p (build_request p s minutes) minutes = Inr (u, e)"
  shows "handleSubmit p s =
    (s\<lparr>errorMessage := [], shortUrl := u, expiresAt := Num e, isLoading := False,
       history := history_updater (history_entry p s minutes u e) (history s),
       aliasField := []\<rparr>, [build_request p s minutes])"
  using assms by (simp add: handleSubmit_def)

lemma failure_cases:
  assumes "\<not> submit_succeeds p s"
  obtains "trim (longUrl s) = []"
  | "trim (longUrl s) \<noteq> []" "\<not> isValidHttpUrl (new_URL p) (trim (longUrl s))"
  | "trim (longUrl s) \<noteq> []" "isValidHttpUrl (new_URL p) (trim (longUrl s))"
    "parseValidityOrDefault (validityMinutes s) = None"
  | minutes m where "trim (longUrl s) \<noteq> []"
    "isValidHttpUrl (new_URL p) (trim (longUrl s))"
    "parseValidityOrDefault (validityMinutes s) = Some minutes"
    "try_block p (build_request p s minutes) minutes = Inl m"
  using assms unfolding submit_succeeds_def
  by (auto split: option.splits sum.splits)

lemma success_cases:
  assumes "submit_succeeds p s"
  obtains minutes u e where "trim (longUrl s) \<noteq> []"
    "isValidHttpUrl (new_URL p) (trim (longUrl s))"
    "parseValidityOrDefault (validityMinutes s) = Some minutes"
    "try_block p (build_request p s minutes) minutes = Inr (u, e)"
  using assms unfolding submit_succeeds_def
  by (auto split: option.splits sum.splits)

lemma failure_state:
  assumes "\<not> submit_succeeds p s"
  shows "history (fst (handleSubmit p s)) = history s \<and>
         errorMessage (fst (handleSubmit p s)) \<noteq> [] \<and>
         shortUrl (fst (handleSubmit p s)) = Str [] \<and>
         expiresAt (fst (handleSubmit p s)) = Null"
  using assms
proof (cases rule: failure_cases)
  case 1
  then show ?thesis by (simp add: handleSubmit_missing)
next
  case 2
  then show ?thesis by (simp add: handleSubmit_invalid_url)
next
  case 3
  then show ?thesis by (simp add: handleSubmit_invalid_validity)
next
  case (4 minutes m)
  then show ?thesis by (simp add: handleSubmit_thrown)
qed

lemma success_state:
  assumes "submit_succeeds p s"
  shows "errorMessage (fst (handleSubmit p s)) = []"
  using assms
proof (cases rule: success_cases)
  case (1 minutes u e)
  then show ?thesis by (simp add: handleSubmit_success)
qed

lemma generatedShortUrl_find:
  "generatedShortUrl d =
     (case find truthy
             [get_prop d ''shortUrl'', get_prop d ''short_url'', get_prop d ''short''] of
        None \<Rightarrow> Str [] | Some u \<Rightarrow> u)"
  by (simp add: generatedShortUrl_def js_or_def)

lemma serverExpiresAt_find:
  "serverExpiresAt d =
     (case find truthy [get_prop d ''expiresAt'', get_prop d ''expires_at''] of
        None \<Rightarrow> Null | Some v \<Rightarrow> v)"
  by (simp add: serverExpiresAt_def js_or_def)

lemma find_truthy_Some: "find truthy xs = Some u \<Longrightarrow> truthy u"
  by (induction xs) (auto split: if_splits)

lemma try_block_http_error:
  assumes "fetch p req = Resolved r" "\<not> ok r" "text_body r = Resolved t"
  shows "try_block p req minutes = Inl (if t \<noteq> [] then t else ''Failed to shorten URL'')"
  using assms by (simp add: try_block_def)

lemma try_block_ok:
  assumes "fetch p req = Resolved r" "ok r" "json_body r = Resolved data"
    "data \<noteq> Null" "data \<noteq> Undefined"
  shows "try_block p req minutes =
     (if \<not> truthy (generatedShortUrl data) then Inl ''Unexpected response from server.''
      else (case computedExpiry p minutes data of
              None \<Rightarrow> Inl (not_primitive_message p)
            | Some e \<Rightarrow> Inr (generatedShortUrl data, e)))"
  using assms by (simp add: try_block_def)

lemma computedExpiry_server:
  assumes "find truthy [get_prop d ''expiresAt'', get_prop d ''expires_at''] = Some v"
  shows "computedExpiry p minutes d = Number_of v"
  using assms find_truthy_Some [OF assms]
  by (simp add: computedExpiry_def serverExpiresAt_find)

lemma computedExpiry_local:
  assumes "find truthy [get_prop d ''expiresAt'', get_prop d ''expires_at''] = None"
  shows "computedExpiry p minutes d =
    Some (num_add (binary64 (rat_of_int (now_expiry p)))
                  (num_mul (num_mul minutes (Fin 60)) (Fin 1000)))"
  using assms by (simp add: computedExpiry_def serverExpiresAt_find)

text \<open>
  The local expiry is exact as long as it stays within \<open>2 ^ 53\<close>; beyond that each of
  the three operations rounds, as for a validity of 9007199254740991 minutes, and from
  \<open>2 ^ 1024\<close> on it is infinite, as for a validity of \<^verbatim>\<open>1e308\<close> minutes.
\<close>

lemma local_expiry_exact:
  assumes "0 < k" "0 \<le> t" "t + k * 60000 \<le> 2 ^ 53"
  shows "num_add (binary64 (rat_of_int t))
           (num_mul (num_mul (Fin (rat_of_int k)) (Fin 60)) (Fin 1000)) =
         Fin (rat_of_int (t + k * 60000))"
proof -
  have 1: "binary64 (rat_of_int (k * 60)) = Fin (rat_of_int (k * 60))"
    using assms by (intro binary64_int) simp
  have 2: "binary64 (rat_of_int (k * 60000)) = Fin (rat_of_int (k * 60000))"
    using assms by (intro binary64_int) simp
  have 3: "binary64 (rat_of_int t) = Fin (rat_of_int t)"
    using assms by (intro binary64_int) simp
  have 4: "binary64 (rat_of_int (t + k * 60000)) = Fin (rat_of_int (t + k * 60000))"
    using assms by (intro binary64_int) simp
  have a: "rat_of_int k * 60 = rat_of_int (k * 60)" by simp
  have b: "rat_of_int (k * 60) * 1000 = rat_of_int (k * 60000)" by simp
  have c: "rat_of_int t + rat_of_int (k * 60000) = rat_of_int (t + k * 60000)" by simp
  show ?thesis by (simp only: num_mul.simps num_add.simps a b c 1 2 3 4)
qed


lemma binary64_round_down:
  assumes "2 powi l \<le> r" "r < 2 powi (l + 1)" "e = max (l - 52) (- 1074)"
    and "rat_of_int f * 2 powi e \<le> r" "r < (rat_of_int f + 1 / 2) * 2 powi e"
    and "rat_of_int f * 2 powi e < 2 ^ 1024"
  shows "binary64 r = Fin (rat_of_int f * 2 powi e)"
proof -
  have p: "(0::rat) < 2 powi e" by simp
  have "round_half_even (r / 2 powi e) = f"
    using assms(4,5) p by (intro round_half_even_down) (simp_all add: pos_le_divide_eq pos_divide_less_eq)
  then show ?thesis
    using binary64_pos [OF assms(1-3) refl] assms(6) by simp
qed

lemma binary64_round_up:
  assumes "2 powi l \<le> r" "r < 2 powi (l + 1)" "e = max (l - 52) (- 1074)"
    and "(rat_of_int f + 1 / 2) * 2 powi e < r" "r < (rat_of_int f + 1) * 2 powi e"
    and "rat_of_int (f + 1) * 2 powi e < 2 ^ 1024"
  shows "binary64 r = Fin (rat_of_int (f + 1) * 2 powi e)"
proof -
  have p: "(0::rat) < 2 powi e" by simp
  have "round_half_even (r / 2 powi e) = f + 1"
    using assms(4,5) p by (intro round_half_even_up) (simp_all add: pos_less_divide_eq pos_divide_less_eq)
  then show ?thesis
    using binary64_pos [OF assms(1-3) refl] assms(6) by simp
qed

lemma local_expiry_rounds:
  "num_add (binary64 1000) (num_mul (num_mul (Fin 9007199254740991) (Fin 60)) (Fin 1000)) =
   Fin 540431955284459454464"
proof -
  have "binary64 540431955284459460 = Fin (rat_of_int 8444249301319679 * 2 powi 6)"
    by (rule binary64_round_down [of 58]) simp_all
  then have 1: "binary64 540431955284459460 = Fin 540431955284459456" by simp
  have "binary64 540431955284459456000 = Fin (rat_of_int 8246337208319999 * 2 powi 16)"
    by (rule binary64_round_down [of 68]) simp_all
  then have 2: "binary64 540431955284459456000 = Fin 540431955284459454464" by simp
  have "binary64 540431955284459455464 = Fin (rat_of_int 8246337208319999 * 2 powi 16)"
    by (rule binary64_round_down [of 68]) simp_all
  then have 3: "binary64 540431955284459455464 = Fin 540431955284459454464" by simp
  have 0: "binary64 1000 = Fin 1000" by (simp add: binary64_numeral)
  show ?thesis by (simp add: 0 1 2 3)
qed

lemma binary64_1e308:
  "binary64 (10 ^ 308) = Fin (rat_of_int 5010420900022432 * 2 powi 971)"
  using binary64_round_up [of 1023 "10 ^ 308" 971 5010420900022431] by simp

lemma local_expiry_overflows:
  "num_add (binary64 1000)
     (num_mul (num_mul (binary64 (10 ^ 308)) (Fin 60)) (Fin 1000)) = PosInf"
proof -
  have "binary64 (rat_of_int 5010420900022432 * 2 powi 971 * 60) = PosInf"
    by (rule binary64_overflow) simp
  then have "num_mul (binary64 (10 ^ 308)) (Fin 60) = PosInf"
    unfolding binary64_1e308 by (simp only: num_mul.simps)
  moreover have "binary64 1000 = Fin 1000" by (simp add: binary64_numeral)
  ultimately show ?thesis by simp
qed

subsection \<open>The claims about the submit handler\<close>

text \<open>
  Claim C7. When the long-URL field is empty after trimming, the handler issues no
  request and sets the message \<^verbatim>\<open>Please enter a URL to shorten.\<close> When the field is not
  empty and the validator rejects it, the handler issues no request either and sets
  another message, \<^verbatim>\<open>Please enter a valid http(s) URL.\<close>
\<close>

theorem missing_url_no_request:
  "(trim (longUrl s) = [] \<longrightarrow>
      snd (handleSubmit p s) = [] \<and>
      errorMessage (fst (handleSubmit p s)) = ''Please enter a URL to shorten.'' \<and>
      \<not> submit_succeeds p s) \<and>
   (trim (longUrl s) \<noteq> [] \<and> \<not> isValidHttpUrl (new_URL p) (trim (longUrl s)) \<longrightarrow>
      snd (handleSubmit p s) = [] \<and>
      errorMessage (fst (handleSubmit p s)) = ''Please enter a valid http(s) URL.'' \<and>
      errorMessage (fst (handleSubmit p s)) \<noteq> ''Please enter a URL to shorten.'')"
  by (simp add: handleSubmit_missing handleSubmit_invalid_url submit_succeeds_def)

text \<open>The theorem at a field of three spaces and at the address \<^verbatim>\<open>ftp://x\<close>.\<close>

theorem missing_url_no_request_witness:
  "trim (longUrl (sample_state\<lparr>longUrl := ''   ''\<rparr>)) = [] \<and>
   handleSubmit (sample_platform (Rejected [])) (sample_state\<lparr>longUrl := ''   ''\<rparr>) =
     (sample_state\<lparr>longUrl := ''   '', errorMessage := ''Please enter a URL to shorten.''\<rparr>, []) \<and>
   trim (longUrl (sample_state\<lparr>longUrl := ''ftp://x''\<rparr>)) \<noteq> [] \<and>
   \<not> isValidHttpUrl sample_URL (trim (longUrl (sample_state\<lparr>longUrl := ''ftp://x''\<rparr>))) \<and>
   errorMessage (fst (handleSubmit (sample_platform (Rejected []))
     (sample_state\<lparr>longUrl := ''ftp://x''\<rparr>))) = ''Please enter a valid http(s) URL.'' \<and>
   snd (handleSubmit (sample_platform (Rejected [])) (sample_state\<lparr>longUrl := ''ftp://x''\<rparr>)) = []"
proof -
  let ?p = "sample_platform (Rejected [])"
  let ?s1 = "sample_state\<lparr>longUrl := ''   ''\<rparr>"
  let ?s2 = "sample_state\<lparr>longUrl := ''ftp://x''\<rparr>"
  have h1: "trim (longUrl ?s1) = []" by (simp add: sample_defs number_defs)
  have h2: "trim (longUrl ?s2) \<noteq> []" by (simp add: sample_defs number_defs)
  have h3: "\<not> isValidHttpUrl (new_URL ?p) (trim (longUrl ?s2))"
    by (simp add: sample_defs number_defs isValidHttpUrl_def)
  from missing_url_no_request [of ?s1 ?p] h1
  have a: "snd (handleSubmit ?p ?s1) = [] \<and>
      errorMessage (fst (handleSubmit ?p ?s1)) = ''Please enter a URL to shorten.''"
    by blast
  from missing_url_no_request [of ?s2 ?p] h2 h3
  have b: "snd (handleSubmit ?p ?s2) = [] \<and>
      errorMessage (fst (handleSubmit ?p ?s2)) = ''Please enter a valid http(s) URL.''"
    by blast
  have c: "handleSubmit ?p ?s1 =
     (sample_state\<lparr>longUrl := ''   '', errorMessage := ''Please enter a URL to shorten.''\<rparr>, [])"
    using h1 by (simp add: handleSubmit_missing) (simp add: sample_defs)
  have d: "\<not> isValidHttpUrl sample_URL (trim (longUrl ?s2))"
    using h3 by (simp add: sample_platform_def)
  from a b c d h1 h2 show ?thesis by blast
qed

text \<open>
  Claim C6. When \<^verbatim>\<open>fetch\<close> resolves with a response that is not ok and the body is read
  as text \<open>t\<close>, the submission fails, and the message is \<open>t\<close> itself when \<open>t\<close> is not
  empty and \<^verbatim>\<open>Failed to shorten URL\<close> when it is.
\<close>

theorem http_error_message:
  assumes "trim (longUrl s) \<noteq> []" "isValidHttpUrl (new_URL p) (trim (longUrl s))"
    and "parseValidityOrDefault (validityMinutes s) = Some minutes"
    and "fetch p (build_request p s minutes) = Resolved r" "\<not> ok r"
    and "text_body r = Resolved t"
  shows "\<not> submit_succeeds p s \<and>
    errorMessage (fst (handleSubmit p s)) = (if t \<noteq> [] then t else ''Failed to shorten URL'')"
proof -
  have tb: "try_block p (build_request p s minutes) minutes =
      Inl (if t \<noteq> [] then t else ''Failed to shorten URL'')"
    using assms(4-6) by (rule try_block_http_error)
  have "\<not> submit_succeeds p s" using assms(3) tb by (simp add: submit_succeeds_def)
  moreover have "errorMessage (fst (handleSubmit p s)) =
      (if t \<noteq> [] then t else ''Failed to shorten URL'')"
    using handleSubmit_thrown [OF assms(1-3) tb] by simp
  ultimately show ?thesis by simp
qed

text \<open>The theorem at a response with the body \<^verbatim>\<open>alias taken\<close>.\<close>

theorem http_error_message_witness:
  "errorMessage (fst (handleSubmit (sample_platform (Resolved (error_response ''alias taken'')))
     sample_state)) = ''alias taken''"
proof -
  let ?r = "error_response ''alias taken''"
  let ?p = "sample_platform (Resolved ?r)"
  have h1: "trim (longUrl sample_state) \<noteq> []" by (simp add: sample_defs number_defs)
  have h2: "isValidHttpUrl (new_URL ?p) (trim (longUrl sample_state))"
    by (simp add: sample_defs number_defs isValidHttpUrl_def)
  have h3: "parseValidityOrDefault (validityMinutes sample_state) = Some (Fin 30)"
    by (simp add: sample_defs parseValidityOrDefault_def)
  have h4: "fetch ?p (build_request ?p sample_state (Fin 30)) = Resolved ?r"
    by (simp add: sample_platform_def)
  have h5: "\<not> ok ?r" by (simp add: error_response_def)
  have h6: "text_body ?r = Resolved ''alias taken''" by (simp add: error_response_def)
  from http_error_message [OF h1 h2 h3 h4 h5 h6] show ?thesis by simp
qed

text \<open>
  Claim C10. A submission that does not succeed (the URL is missing or invalid, the
  validity is invalid, or an error is thrown in the \<^verbatim>\<open>try\<close> block: a rejected \<^verbatim>\<open>fetch\<close>, a
  response that is not ok, a body that is not JSON, a response without a short URL)
  leaves the history as it was, sets a non-empty error message and leaves the result
  fields cleared. The error message is non-empty exactly for these submissions, so a
  submission that changes the history is a successful one.
\<close>

theorem failure_keeps_history:
  "(\<not> submit_succeeds p s \<longrightarrow>
      history (fst (handleSubmit p s)) = history s \<and>
      errorMessage (fst (handleSubmit p s)) \<noteq> [] \<and>
      shortUrl (fst (handleSubmit p s)) = Str [] \<and>
      expiresAt (fst (handleSubmit p s)) = Null) \<and>
   (errorMessage (fst (handleSubmit p s)) \<noteq> [] \<longleftrightarrow> \<not> submit_succeeds p s) \<and>
   (history (fst (handleSubmit p s)) \<noteq> history s \<longrightarrow>
      submit_succeeds p s \<and> errorMessage (fst (handleSubmit p s)) = [])"
  using failure_state [of p s] success_state [of p s] by blast

text \<open>
  The theorem at a history of one entry and a response that is not ok.
\<close>

theorem failure_keeps_history_witness:
  "\<not> submit_succeeds (sample_platform (Resolved (error_response ''alias taken'')))
       (sample_state\<lparr>history := [Str ''kept'']\<rparr>) \<and>
   history (fst (handleSubmit (sample_platform (Resolved (error_response ''alias taken'')))
       (sample_state\<lparr>history := [Str ''kept'']\<rparr>))) = [Str ''kept'']"
proof -
  let ?p = "sample_platform (Resolved (error_response ''alias taken''))"
  let ?s = "sample_state\<lparr>history := [Str ''kept'']\<rparr>"
  have h: "\<not> submit_succeeds ?p ?s"
    by (simp add: submit_succeeds_def sample_defs handler_defs number_defs)
  from failure_keeps_history [of ?p ?s] h
  have "history (fst (handleSubmit ?p ?s)) = history ?s" by blast
  then show ?thesis using h by (simp add: sample_state_def)
qed

text \<open>
  Claim C5, as the code has it. On a response that is ok and whose JSON body is not
  \<^verbatim>\<open>null\<close>, the short URL is the first truthy value among the properties \<^verbatim>\<open>shortUrl\<close>,
  \<^verbatim>\<open>short_url\<close> and \<^verbatim>\<open>short\<close>, in this order. When none of the three is truthy the
  submission fails with the message \<^verbatim>\<open>Unexpected response from server.\<close> and no result is
  set. When one is, and the expiry is computed without an exception, that value becomes
  the result.
\<close>

theorem short_url_first_truthy:
  assumes "trim (longUrl s) \<noteq> []" "isValidHttpUrl (new_URL p) (trim (longUrl s))"
    and "parseValidityOrDefault (validityMinutes s) = Some minutes"
    and "fetch p (build_request p s minutes) = Resolved r" "ok r"
    and "json_body r = Resolved data" "data \<noteq> Null" "data \<noteq> Undefined"
  shows
    "(find truthy
        [get_prop data ''shortUrl'', get_prop data ''short_url'', get_prop data ''short'']
        = None \<longrightarrow>
        \<not> submit_succeeds p s \<and>
        errorMessage (fst (handleSubmit p s)) = ''Unexpected response from server.'' \<and>
        shortUrl (fst (handleSubmit p s)) = Str []) \<and>
     (\<forall>u e. find truthy
        [get_prop data ''shortUrl'', get_prop data ''short_url'', get_prop data ''short'']
        = Some u \<and> computedExpiry p minutes data = Some e \<longrightarrow>
        submit_succeeds p s \<and>
        errorMessage (fst (handleSubmit p s)) = [] \<and>
        shortUrl (fst (handleSubmit p s)) = u)"
proof (intro conjI impI allI)
  let ?f = "find truthy
    [get_prop data ''shortUrl'', get_prop data ''short_url'', get_prop data ''short'']"
  note tb = try_block_ok [OF assms(4-8), of minutes]
  {
    assume n: "?f = None"
    then have "\<not> truthy (generatedShortUrl data)" by (simp add: generatedShortUrl_find)
    then have t: "try_block p (build_request p s minutes) minutes =
        Inl ''Unexpected response from server.''"
      using tb by simp
    show "\<not> submit_succeeds p s" using assms(3) t by (simp add: submit_succeeds_def)
    show "errorMessage (fst (handleSubmit p s)) = ''Unexpected response from server.''"
      using handleSubmit_thrown [OF assms(1-3) t] by simp
    show "shortUrl (fst (handleSubmit p s)) = Str []"
      using handleSubmit_thrown [OF assms(1-3) t] by simp
  }
  {
    fix u e
    assume a: "?f = Some u \<and> computedExpiry p minutes data = Some e"
    then have g: "generatedShortUrl data = u" by (simp add: generatedShortUrl_find)
    have "truthy u" using a find_truthy_Some by blast
    then have t: "try_block p (build_request p s minutes) minutes = Inr (u, e)"
      using tb a g by simp
    show "submit_succeeds p s" using assms(1-3) t by (simp add: submit_succeeds_def)
    show "errorMessage (fst (handleSubmit p s)) = []"
      using handleSubmit_success [OF assms(1-3) t] by simp
    show "shortUrl (fst (handleSubmit p s)) = u"
      using handleSubmit_success [OF assms(1-3) t] by simp
  }
qed

text \<open>
  The theorem at the body \<^verbatim>\<open>{"short": "", "short_url": "https://s/x"}\<close>, where the second
  key wins, and at the body \<^verbatim>\<open>{}\<close>.
\<close>

theorem short_url_first_truthy_witness:
  "shortUrl (fst (handleSubmit
     (sample_platform (Resolved (ok_response
        (Obj [(''short'', Str []), (''short_url'', Str ''https://s/x'')]))))
     sample_state)) = Str ''https://s/x'' \<and>
   errorMessage (fst (handleSubmit (sample_platform (Resolved (ok_response (Obj []))))
     sample_state)) = ''Unexpected response from server.''"
proof -
  let ?d1 = "Obj [(''short'', Str []), (''short_url'', Str ''https://s/x'')]"
  let ?d2 = "Obj []"
  let ?p1 = "sample_platform (Resolved (ok_response ?d1))"
  let ?p2 = "sample_platform (Resolved (ok_response ?d2))"
  have h1: "trim (longUrl sample_state) \<noteq> []" by (simp add: sample_defs number_defs)
  have h2: "isValidHttpUrl (new_URL ?p1) (trim (longUrl sample_state))"
    "isValidHttpUrl (new_URL ?p2) (trim (longUrl sample_state))"
    by (simp_all add: sample_defs number_defs isValidHttpUrl_def)
  have h3: "parseValidityOrDefault (validityMinutes sample_state) = Some (Fin 30)"
    by (simp add: sample_defs parseValidityOrDefault_def)
  have h4: "fetch ?p1 (build_request ?p1 sample_state (Fin 30)) = Resolved (ok_response ?d1)"
    "fetch ?p2 (build_request ?p2 sample_state (Fin 30)) = Resolved (ok_response ?d2)"
    by (simp_all add: sample_platform_def)
  have h5: "ok (ok_response ?d1)" "ok (ok_response ?d2)" by (simp_all add: ok_response_def)
  have h6: "json_body (ok_response ?d1) = Resolved ?d1"
    "json_body (ok_response ?d2) = Resolved ?d2"
    by (simp_all add: ok_response_def)
  have f1: "find truthy
      [get_prop ?d1 ''shortUrl'', get_prop ?d1 ''short_url'', get_prop ?d1 ''short'']
      = Some (Str ''https://s/x'') \<and>
      computedExpiry ?p1 (Fin 30) ?d1 = Some (Fin 1801000)"
    by (simp add: computedExpiry_def serverExpiresAt_def js_or_def sample_platform_def
        binary64_numeral)
  have f2: "find truthy
      [get_prop ?d2 ''shortUrl'', get_prop ?d2 ''short_url'', get_prop ?d2 ''short''] = None"
    by simp
  from short_url_first_truthy [OF h1 h2(1) h3 h4(1) h5(1) h6(1)] f1
  have a: "shortUrl (fst (handleSubmit ?p1 sample_state)) = Str ''https://s/x''"
    by blast
  from short_url_first_truthy [OF h1 h2(2) h3 h4(2) h5(2) h6(2)] f2
  have b: "errorMessage (fst (handleSubmit ?p2 sample_state)) =
      ''Unexpected response from server.''"
    by blast
  from a b show ?thesis by simp
qed

text \<open>
  Claim C5 as the specification words it fails at the body \<^verbatim>\<open>{"shortUrl": 5}\<close>: none of
  the three keys holds a non-empty string, and still the submission succeeds, with the
  number 5 as its short URL and one more entry in the history.
\<close>

theorem short_url_number_counterexample:
  "\<not> holds_nonempty_string (Obj [(''shortUrl'', Num (Fin 5))]) ''shortUrl'' \<and>
   \<not> holds_nonempty_string (Obj [(''shortUrl'', Num (Fin 5))]) ''short_url'' \<and>
   \<not> holds_nonempty_string (Obj [(''shortUrl'', Num (Fin 5))]) ''short'' \<and>
   submit_succeeds
     (sample_platform (Resolved (ok_response (Obj [(''shortUrl'', Num (Fin 5))]))))
     sample_state \<and>
   errorMessage (fst (handleSubmit
     (sample_platform (Resolved (ok_response (Obj [(''shortUrl'', Num (Fin 5))]))))
     sample_state)) = [] \<and>
   shortUrl (fst (handleSubmit
     (sample_platform (Resolved (ok_response (Obj [(''shortUrl'', Num (Fin 5))]))))
     sample_state)) = Num (Fin 5) \<and>
   length (history (fst (handleSubmit
     (sample_platform (Resolved (ok_response (Obj [(''shortUrl'', Num (Fin 5))]))))
     sample_state))) = 1"
  by (simp add: holds_nonempty_string_def submit_succeeds_def sample_defs handler_defs
      number_defs)

text \<open>
  Claim C1, as the code has it. On a response that is ok, whose JSON body is not \<^verbatim>\<open>null\<close>
  and holds a short URL, the expiry is taken from the first truthy value among the
  properties \<^verbatim>\<open>expiresAt\<close> and \<^verbatim>\<open>expires_at\<close>, in this order: the result's \<^verbatim>\<open>expiresAt\<close> is
  \<^verbatim>\<open>Number\<close> of that value (when the conversion does not throw). When neither is truthy
  (the key is absent, or holds \<^verbatim>\<open>0\<close>, \<^verbatim>\<open>null\<close>, \<^verbatim>\<open>false\<close> or the empty string), the result's
  \<^verbatim>\<open>expiresAt\<close> is what \<^verbatim>\<open>Date.now() + minutes * 60 * 1000\<close> evaluates to in binary64, with
  the resolved minutes: that is the clock reading plus 60000 times the minutes whenever
  the clock reading is not negative and this sum is at most \<open>2 ^ 53\<close>, and a rounded
  value or \<^verbatim>\<open>Infinity\<close> beyond.
\<close>

theorem expiry_first_truthy:
  assumes "trim (longUrl s) \<noteq> []" "isValidHttpUrl (new_URL p) (trim (longUrl s))"
    and "parseValidityOrDefault (validityMinutes s) = Some minutes"
    and "fetch p (build_request p s minutes) = Resolved r" "ok r"
    and "json_body r = Resolved data" "data \<noteq> Null" "data \<noteq> Undefined"
    and "truthy (generatedShortUrl data)"
  shows
    "(\<forall>v n. find truthy [get_prop data ''expiresAt'', get_prop data ''expires_at''] = Some v \<and>
        Number_of v = Some n \<longrightarrow>
        submit_succeeds p s \<and> expiresAt (fst (handleSubmit p s)) = Num n) \<and>
     (find truthy [get_prop data ''expiresAt'', get_prop data ''expires_at''] = None \<longrightarrow>
        submit_succeeds p s \<and>
        (\<exists>k. 0 < k \<and> minutes = Fin (rat_of_int k) \<and>
           expiresAt (fst (handleSubmit p s)) =
             Num (num_add (binary64 (rat_of_int (now_expiry p)))
                    (num_mul (num_mul (Fin (rat_of_int k)) (Fin 60)) (Fin 1000))) \<and>
           (0 \<le> now_expiry p \<and> now_expiry p + k * 60000 \<le> 2 ^ 53 \<longrightarrow>
              expiresAt (fst (handleSubmit p s)) =
                Num (Fin (rat_of_int (now_expiry p + k * 60000))))))"
proof (intro conjI impI allI)
  let ?f = "find truthy [get_prop data ''expiresAt'', get_prop data ''expires_at'']"
  have tb: "try_block p (build_request p s minutes) minutes =
      (case computedExpiry p minutes data of
         None \<Rightarrow> Inl (not_primitive_message p)
       | Some e \<Rightarrow> Inr (generatedShortUrl data, e))"
    using try_block_ok [OF assms(4-8), of minutes] assms(9) by simp
  {
    fix v n
    assume a: "?f = Some v \<and> Number_of v = Some n"
    then have "computedExpiry p minutes data = Some n"
      using computedExpiry_server [of data v p minutes] by simp
    then have t: "try_block p (build_request p s minutes) minutes =
        Inr (generatedShortUrl data, n)"
      using tb by simp
    show "submit_succeeds p s" using assms(1-3) t by (simp add: submit_succeeds_def)
    show "expiresAt (fst (handleSubmit p s)) = Num n"
      using handleSubmit_success [OF assms(1-3) t] by simp
  }
  {
    assume a: "?f = None"
    obtain k where k: "0 < k" "minutes = Fin (rat_of_int k)"
      using parseValidity_positive [OF assms(3)] by blast
    let ?e = "num_add (binary64 (rat_of_int (now_expiry p)))
      (num_mul (num_mul (Fin (rat_of_int k)) (Fin 60)) (Fin 1000))"
    have "computedExpiry p minutes data = Some ?e"
      using computedExpiry_local [OF a] k by simp
    then have t: "try_block p (build_request p s minutes) minutes =
        Inr (generatedShortUrl data, ?e)"
      using tb by simp
    show "submit_succeeds p s" using assms(1-3) t by (simp add: submit_succeeds_def)
    have e: "expiresAt (fst (handleSubmit p s)) = Num ?e"
      using handleSubmit_success [OF assms(1-3) t] by simp
    have "0 \<le> now_expiry p \<and> now_expiry p + k * 60000 \<le> 2 ^ 53 \<longrightarrow>
        expiresAt (fst (handleSubmit p s)) =
          Num (Fin (rat_of_int (now_expiry p + k * 60000)))"
      using local_expiry_exact [OF k(1), of "now_expiry p"] e by simp
    with e k show "\<exists>k. 0 < k \<and> minutes = Fin (rat_of_int k) \<and>
        expiresAt (fst (handleSubmit p s)) =
          Num (num_add (binary64 (rat_of_int (now_expiry p)))
                 (num_mul (num_mul (Fin (rat_of_int k)) (Fin 60)) (Fin 1000))) \<and>
        (0 \<le> now_expiry p \<and> now_expiry p + k * 60000 \<le> 2 ^ 53 \<longrightarrow>
           expiresAt (fst (handleSubmit p s)) =
             Num (Fin (rat_of_int (now_expiry p + k * 60000))))"
      by blast
  }
qed

text \<open>
  The theorem at the body
  \<^verbatim>\<open>{"short_url": "https://s/x", "expires_at": 1700000000000}\<close>, where the server's value
  is kept; at the body \<^verbatim>\<open>{"short_url": "https://s/x"}\<close>, where the expiry is the clock
  reading 1000 plus 30 minutes; and at the same body with a validity of 9007199254740991
  minutes, where the expiry is rounded three times, to 540431955284459454464.
\<close>

theorem expiry_first_truthy_witness:
  "expiresAt (fst (handleSubmit
     (sample_platform (Resolved (ok_response
        (Obj [(''short_url'', Str ''https://s/x''), (''expires_at'', Num (Fin 1700000000000))]))))
     sample_state)) = Num (Fin 1700000000000) \<and>
   expiresAt (fst (handleSubmit
     (sample_platform (Resolved (ok_response (Obj [(''short_url'', Str ''https://s/x'')]))))
     sample_state)) = Num (Fin 1801000) \<and>
   expiresAt (fst (handleSubmit
     (sample_platform (Resolved (ok_response (Obj [(''short_url'', Str ''https://s/x'')]))))
     (sample_state\<lparr>validityMinutes := ''9007199254740991''\<rparr>))) =
     Num (Fin 540431955284459454464)"
proof -
  let ?d1 = "Obj [(''short_url'', Str ''https://s/x''), (''expires_at'', Num (Fin 1700000000000))]"
  let ?d2 = "Obj [(''short_url'', Str ''https://s/x'')]"
  let ?p1 = "sample_platform (Resolved (ok_response ?d1))"
  let ?p2 = "sample_platform (Resolved (ok_response ?d2))"
  let ?s3 = "sample_state\<lparr>validityMinutes := ''9007199254740991''\<rparr>"
  have h1: "trim (longUrl sample_state) \<noteq> []" "trim (longUrl ?s3) \<noteq> []"
    by (simp_all add: sample_defs number_defs)
  have h2: "isValidHttpUrl (new_URL ?p1) (trim (longUrl sample_state))"
    "isValidHttpUrl (new_URL ?p2) (trim (longUrl sample_state))"
    "isValidHttpUrl (new_URL ?p2) (trim (longUrl ?s3))"
    by (simp_all add: sample_defs number_defs isValidHttpUrl_def)
  have h3: "parseValidityOrDefault (validityMinutes sample_state) = Some (Fin 30)"
    by (simp add: sample_defs parseValidityOrDefault_def)
  have h3': "parseValidityOrDefault (validityMinutes ?s3) = Some (Fin 9007199254740991)"
    by (simp add: sample_defs parseValidityOrDefault_def number_defs)
  have h4: "fetch ?p1 (build_request ?p1 sample_state (Fin 30)) = Resolved (ok_response ?d1)"
    "fetch ?p2 (build_request ?p2 sample_state (Fin 30)) = Resolved (ok_response ?d2)"
    "fetch ?p2 (build_request ?p2 ?s3 (Fin 9007199254740991)) = Resolved (ok_response ?d2)"
    by (simp_all add: sample_platform_def)
  have h5: "ok (ok_response ?d1)" "ok (ok_response ?d2)" by (simp_all add: ok_response_def)
  have h6: "json_body (ok_response ?d1) = Resolved ?d1"
    "json_body (ok_response ?d2) = Resolved ?d2"
    by (simp_all add: ok_response_def)
  have h9: "truthy (generatedShortUrl ?d1)" "truthy (generatedShortUrl ?d2)"
    by (simp_all add: generatedShortUrl_def js_or_def)
  have f1: "find truthy [get_prop ?d1 ''expiresAt'', get_prop ?d1 ''expires_at'']
      = Some (Num (Fin 1700000000000)) \<and>
      Number_of (Num (Fin 1700000000000)) = Some (Fin 1700000000000)"
    by (simp add: Number_of_def)
  have f2: "find truthy [get_prop ?d2 ''expiresAt'', get_prop ?d2 ''expires_at''] = None"
    by simp
  from expiry_first_truthy [OF h1(1) h2(1) h3 h4(1) h5(1) h6(1) _ _ h9(1)] f1
  have a: "expiresAt (fst (handleSubmit ?p1 sample_state)) = Num (Fin 1700000000000)"
    by blast
  from expiry_first_truthy [OF h1(1) h2(2) h3 h4(2) h5(2) h6(2) _ _ h9(2)] f2
  obtain k where "Fin 30 = Fin (rat_of_int k)"
    "0 \<le> now_expiry ?p2 \<and> now_expiry ?p2 + k * 60000 \<le> 2 ^ 53 \<longrightarrow>
       expiresAt (fst (handleSubmit ?p2 sample_state)) =
         Num (Fin (rat_of_int (now_expiry ?p2 + k * 60000)))"
    by auto
  then have b: "expiresAt (fst (handleSubmit ?p2 sample_state)) = Num (Fin 1801000)"
    by (simp add: sample_platform_def)
  from expiry_first_truthy [OF h1(2) h2(3) h3' h4(3) h5(2) h6(2) _ _ h9(2)] f2
  obtain k where "Fin 9007199254740991 = Fin (rat_of_int k)"
    "expiresAt (fst (handleSubmit ?p2 ?s3)) =
       Num (num_add (binary64 (rat_of_int (now_expiry ?p2)))
              (num_mul (num_mul (Fin (rat_of_int k)) (Fin 60)) (Fin 1000)))"
    by auto
  then have "expiresAt (fst (handleSubmit ?p2 ?s3)) =
      Num (num_add (binary64 1000)
             (num_mul (num_mul (Fin 9007199254740991) (Fin 60)) (Fin 1000)))"
    by (simp add: sample_platform_def)
  then have c: "expiresAt (fst (handleSubmit ?p2 ?s3)) = Num (Fin 540431955284459454464)"
    by (simp only: local_expiry_rounds)
  from a b c show ?thesis by simp
qed

text \<open>
  Claim C1 as the specification words it fails at the body
  \<^verbatim>\<open>{"shortUrl": "https://s/x", "expiresAt": 0}\<close>: the field \<^verbatim>\<open>expiresAt\<close> is present and
  reads as the number 0, and the result's \<^verbatim>\<open>expiresAt\<close> is not 0 but the clock reading
  1000 plus 30 minutes.
\<close>

theorem expiry_present_zero_counterexample:
  "expiry_field_spec (Obj [(''shortUrl'', Str ''https://s/x''), (''expiresAt'', Num (Fin 0))])
     = Some (Num (Fin 0)) \<and>
   Number_of (Num (Fin 0)) = Some (Fin 0) \<and>
   submit_succeeds
     (sample_platform (Resolved (ok_response
        (Obj [(''shortUrl'', Str ''https://s/x''), (''expiresAt'', Num (Fin 0))]))))
     sample_state \<and>
   expiresAt (fst (handleSubmit
     (sample_platform (Resolved (ok_response
        (Obj [(''shortUrl'', Str ''https://s/x''), (''expiresAt'', Num (Fin 0))]))))
     sample_state)) = Num (Fin 1801000)"
  by (simp add: expiry_field_spec_def submit_succeeds_def sample_defs handler_defs
      number_defs)

subsection \<open>Recording, persisting and loading\<close>






end
